theory Spec2Isabelle
  imports Main
begin

section \<open>Severities\<close>

text \<open>
  The enumeration \<open>LogType\<close> of \<open>nob.py\<close>, with the integer value and the name of
  each member.
\<close>

datatype LogType = DEBUG | INFO | WARNING | ERROR | SUCCESS

fun LogType_value :: "LogType \<Rightarrow> int" where
  "LogType_value DEBUG = 0"
| "LogType_value INFO = 1"
| "LogType_value WARNING = 2"
| "LogType_value ERROR = 3"
| "LogType_value SUCCESS = 4"

fun LogType_name :: "LogType \<Rightarrow> string" where
  "LogType_name DEBUG = ''DEBUG''"
| "LogType_name INFO = ''INFO''"
| "LogType_name WARNING = ''WARNING''"
| "LogType_name ERROR = ''ERROR''"
| "LogType_name SUCCESS = ''SUCCESS''"

section \<open>Characters and constants\<close>

definition ESC :: char where
  "ESC = CHR 0x1B"

definition NL :: char where
  "NL = CHR 0x0A"

definition QUOTE :: char where
  "QUOTE = CHR 0x27"

definition ANSI_RESET :: string where
  "ANSI_RESET = ESC # ''[0m''"

definition ANSI_GREEN :: string where
  "ANSI_GREEN = ESC # ''[32m''"

definition ANSI_YELLOW :: string where
  "ANSI_YELLOW = ESC # ''[33m''"

definition ANSI_RED :: string where
  "ANSI_RED = ESC # ''[31m''"

definition ANSI_CYAN :: string where
  "ANSI_CYAN = ESC # ''[36m''"

definition ANSI_BRIGHT_GREEN :: string where
  "ANSI_BRIGHT_GREEN = ESC # ''[92m''"

section \<open>Time stamps\<close>

text \<open>
  A reading of \<open>datetime.now()\<close> and its rendering by
  \<open>strftime("%Y-%m-%d %H:%M:%S")\<close>: the year on four digits, every other field on two,
  padded with zeros.
\<close>

record datetime =
  year :: nat
  month :: nat
  day :: nat
  hour :: nat
  minute :: nat
  second :: nat

definition digit_char :: "nat \<Rightarrow> char" where
  "digit_char d = ''0123456789'' ! (d mod 10)"

fun str_nat :: "nat \<Rightarrow> string" where
  "str_nat n = (if n < 10 then [digit_char n] else str_nat (n div 10) @ [digit_char n])"

definition zero_pad :: "nat \<Rightarrow> nat \<Rightarrow> string" where
  "zero_pad width n = replicate (width - length (str_nat n)) CHR ''0'' @ str_nat n"

definition strftime :: "datetime \<Rightarrow> string" where
  "strftime t =
     zero_pad 4 (year t) @ ''-'' @ zero_pad 2 (month t) @ ''-'' @ zero_pad 2 (day t) @ '' '' @
     zero_pad 2 (hour t) @ '':'' @ zero_pad 2 (minute t) @ '':'' @ zero_pad 2 (second t)"

section \<open>The world the program acts on\<close>

text \<open>
  What the shell does with a command string: it runs to an exit code with the two
  captured texts, or the shell itself cannot be started (\<open>FileNotFoundError\<close>, with its
  text), or the call fails in some other way (any other \<open>Exception\<close>, with its text).
\<close>

datatype shell_result =
  Exited int string string
| NoShell string
| Fault string

text \<open>
  The console is the list of the strings given to \<open>print\<close>, oldest first. The clock is
  the sequence of readings that successive calls of \<open>datetime.now()\<close> return, and
  \<open>reads\<close> counts the calls made so far. A file is opened in append mode: a path that
  is absent from \<open>files\<close> is created by \<open>open\<close>. \<open>io_fault p\<close> says how appending to
  \<open>p\<close> fails, if it does. \<open>opens\<close> lists the paths given to \<open>open\<close> and \<open>spawned\<close> the
  command strings given to the shell, oldest first. \<open>signal_repr\<close> is the table
  \<open>repr(signal.Signals(n))\<close> of the platform.

  Not modelled: a failure of \<open>print\<close>, a failure of \<open>open\<close> or \<open>write\<close> other than
  \<open>IOError\<close>, and what a child process does to the files.
\<close>

text \<open>
  The two ways an append raises \<open>IOError\<close>, each with the text of the error: \<open>open\<close>
  itself raises and the file is as it was; or \<open>open\<close> succeeds, which creates the file
  when it was absent, and \<open>write\<close> or the closing of the file raises after some first
  characters of the text, possibly none, have reached the file.
\<close>

datatype io_failure =
  AtOpen string
| AfterOpen string nat

fun failure_text :: "io_failure \<Rightarrow> string" where
  "failure_text (AtOpen e) = e"
| "failure_text (AfterOpen e n) = e"

record world =
  console :: "string list"
  clock :: "nat \<Rightarrow> datetime"
  reads :: nat
  files :: "string \<rightharpoonup> string"
  io_fault :: "string \<rightharpoonup> io_failure"
  opens :: "string list"
  shell :: "string \<Rightarrow> shell_result"
  spawned :: "string list"
  signal_repr :: "nat \<rightharpoonup> string"

definition now :: "world \<Rightarrow> datetime \<times> world" where
  "now w = (clock w (reads w), w\<lparr>reads := Suc (reads w)\<rparr>)"

definition print :: "string \<Rightarrow> world \<Rightarrow> world" where
  "print s w = w\<lparr>console := console w @ [s]\<rparr>"

text \<open>
  \<open>with open(path, 'a', encoding='utf-8') as f: f.write(text)\<close>: the first component
  is the text of the \<open>IOError\<close> when the append raises one.
\<close>

definition append_file :: "string \<Rightarrow> string \<Rightarrow> world \<Rightarrow> string option \<times> world" where
  "append_file path text w =
     (let w' = w\<lparr>opens := opens w @ [path]\<rparr> in
      case io_fault w path of
        Some (AtOpen e) \<Rightarrow> (Some e, w')
      | Some (AfterOpen e n) \<Rightarrow>
          (Some e, w'\<lparr>files := (files w)(path \<mapsto>
                     (case files w path of None \<Rightarrow> take n text | Some old \<Rightarrow> old @ take n text))\<rparr>)
      | None \<Rightarrow>
          (None, w'\<lparr>files := (files w)(path \<mapsto>
                    (case files w path of None \<Rightarrow> text | Some old \<Rightarrow> old @ text))\<rparr>))"

section \<open>The logger\<close>

record Log =
  type :: LogType
  log_level :: LogType
  log_file_path :: "string option"

text \<open>\<open>Log.__init__\<close>, whose defaults are \<open>INFO\<close>, \<open>DEBUG\<close> and \<open>None\<close>.\<close>

definition Log_init :: "LogType \<Rightarrow> LogType \<Rightarrow> string option \<Rightarrow> Log" where
  "Log_init t l p = \<lparr>type = t, log_level = l, log_file_path = p\<rparr>"

text \<open>
  \<open>_get_color\<close>. The source's last case, for a type that is no member of the
  enumeration, has no value to match here.
\<close>

definition get_color :: "Log \<Rightarrow> string" where
  "get_color lg =
     (case type lg of
        DEBUG \<Rightarrow> ANSI_CYAN
      | INFO \<Rightarrow> ANSI_GREEN
      | WARNING \<Rightarrow> ANSI_YELLOW
      | ERROR \<Rightarrow> ANSI_RED
      | SUCCESS \<Rightarrow> ANSI_BRIGHT_GREEN)"

definition format_content :: "Log \<Rightarrow> string \<Rightarrow> world \<Rightarrow> string \<times> world" where
  "format_content lg content w =
     (let (t, w1) = now w;
          timestamp = strftime t;
          color = get_color lg
      in (color @ ''['' @ timestamp @ '' '' @ LogType_name (type lg) @ '']: '' @ content @
          ANSI_RESET, w1))"

text \<open>
  A path is used only when it is truthy: \<open>None\<close> and the empty string both disable the
  file.
\<close>

definition truthy_path :: "string option \<Rightarrow> bool" where
  "truthy_path p = (case p of None \<Rightarrow> False | Some s \<Rightarrow> s \<noteq> [])"

text \<open>
  \<open>Log.log\<close>. The handler of \<open>IOError\<close> builds a second logger and calls \<open>log\<close> on it;
  that logger has no file path, which is why the recursion ends.
\<close>

function log :: "Log \<Rightarrow> string \<Rightarrow> world \<Rightarrow> world" where
  "log self content w =
     (if LogType_value (type self) < LogType_value (log_level self) then w
      else
        let (formatted_content, w1) = format_content self content w;
            (t, w2) = now w1;
            plain_content_for_file =
              ''['' @ strftime t @ '' '' @ LogType_name (type self) @ '']: '' @ content @ [NL];
            w3 = print formatted_content w2
        in if truthy_path (log_file_path self) then
             (case append_file (the (log_file_path self)) plain_content_for_file w3 of
                (None, w4) \<Rightarrow> w4
              | (Some e, w4) \<Rightarrow>
                  log (Log_init ERROR (log_level self) None)
                    (''Failed to write to log file '' @ [QUOTE] @ the (log_file_path self) @
                     [QUOTE] @ '': '' @ e)
                    w4)
           else w3)"
  by pat_completeness auto
termination
  by (relation "measure (\<lambda>(self, content, w). if truthy_path (log_file_path self) then 1 else 0)")
     (auto simp: Log_init_def truthy_path_def)

declare log.simps [simp del]
declare str_nat.simps [simp del]

section \<open>The command runner\<close>

record Cmd =
  command :: string
  flags :: "string list"
  logger :: Log

text \<open>\<open>Cmd.__init__\<close>: no flags, and a logger of level \<open>DEBUG\<close> without a file.\<close>

definition Cmd_init :: "string \<Rightarrow> Cmd" where
  "Cmd_init c = \<lparr>command = c, flags = [], logger = Log_init INFO DEBUG None\<rparr>"

definition add_flags :: "Cmd \<Rightarrow> string list \<Rightarrow> Cmd" where
  "add_flags self fs = self\<lparr>flags := flags self @ fs\<rparr>"

text \<open>\<open>sep.join(xs)\<close>.\<close>

fun join :: "string \<Rightarrow> string list \<Rightarrow> string" where
  "join sep [] = []"
| "join sep [x] = x"
| "join sep (x # y # ys) = x @ sep @ join sep (y # ys)"

text \<open>
  \<open>str.strip()\<close>: white space is removed at both ends. A \<open>char\<close> stands for a code
  point below 256; these are the ones Python counts as white space.
\<close>

definition isspace :: "char \<Rightarrow> bool" where
  "isspace c = ((of_char c :: nat) \<in> {9, 10, 11, 12, 13, 28, 29, 30, 31, 32, 133, 160})"

definition strip :: "string \<Rightarrow> string" where
  "strip s = rev (dropWhile isspace (rev (dropWhile isspace s)))"

definition str_int :: "int \<Rightarrow> string" where
  "str_int i = (if i < 0 then ''-'' @ str_nat (nat (- i)) else str_nat (nat i))"

record CompletedProcess =
  args :: string
  returncode :: int
  stdout :: string
  stderr :: string

text \<open>
  The exceptions \<open>run\<close> tells apart: \<open>CalledProcessError\<close> with the exit code, the
  command and the two captured texts; \<open>FileNotFoundError\<close>; any other \<open>Exception\<close>.
\<close>

datatype exn =
  CalledProcessError int string string string
| FileNotFoundError string
| OtherException string

text \<open>
  \<open>str(e)\<close>. For \<open>CalledProcessError\<close> it is the text of the standard library: a
  negative code is a signal, named through the platform's table.
\<close>

fun exn_str :: "world \<Rightarrow> exn \<Rightarrow> string" where
  "exn_str w (CalledProcessError rc cmd out err) =
     (if rc < 0 then
        (case signal_repr w (nat (- rc)) of
           Some r \<Rightarrow> ''Command '' @ [QUOTE] @ cmd @ [QUOTE] @ '' died with '' @ r @ ''.''
         | None \<Rightarrow> ''Command '' @ [QUOTE] @ cmd @ [QUOTE] @ '' died with unknown signal '' @
                     str_int (- rc) @ ''.'')
      else ''Command '' @ [QUOTE] @ cmd @ [QUOTE] @ '' returned non-zero exit status '' @
           str_int rc @ ''.'')"
| "exn_str w (FileNotFoundError m) = m"
| "exn_str w (OtherException m) = m"

text \<open>
  \<open>subprocess.run(cmd, capture_output=True, text=True, shell=True, check=check)\<close>: the
  string goes to the shell as it is; with \<open>check\<close>, an exit code other than 0 becomes
  \<open>CalledProcessError\<close>.
\<close>

definition subprocess_run :: "string \<Rightarrow> bool \<Rightarrow> world \<Rightarrow> (exn + CompletedProcess) \<times> world" where
  "subprocess_run cmd check w =
     (let w' = w\<lparr>spawned := spawned w @ [cmd]\<rparr> in
      case shell w cmd of
        Exited rc out err \<Rightarrow>
          if check \<and> rc \<noteq> 0 then (Inl (CalledProcessError rc cmd out err), w')
          else (Inr \<lparr>args = cmd, returncode = rc, stdout = out, stderr = err\<rparr>, w')
      | NoShell m \<Rightarrow> (Inl (FileNotFoundError m), w')
      | Fault m \<Rightarrow> (Inl (OtherException m), w'))"

text \<open>
  \<open>self.logger.type = t\<close> followed by \<open>self.logger.log(content)\<close>, on the pair of the
  logger and the world.
\<close>

definition log_as :: "LogType \<Rightarrow> string \<Rightarrow> Log \<times> world \<Rightarrow> Log \<times> world" where
  "log_as t content s = (case s of (lg, w) \<Rightarrow> (lg\<lparr>type := t\<rparr>, log (lg\<lparr>type := t\<rparr>) content w))"

definition full_command :: "Cmd \<Rightarrow> string" where
  "full_command self = command self @ '' '' @ join '' '' (flags self)"

text \<open>
  \<open>Cmd.run\<close>. The result is the value returned or the exception raised, the command
  with its logger as the call leaves it, and the world.
\<close>

definition run :: "Cmd \<Rightarrow> bool \<Rightarrow> world \<Rightarrow> (exn + CompletedProcess) \<times> Cmd \<times> world" where
  "run self check_returncode w =
     (let s0 = log_as INFO (''Running command: '' @ [QUOTE] @ full_command self @ [QUOTE] @ ''...'')
                 (logger self, w)
      in case subprocess_run (full_command self) check_returncode (snd s0) of
        (Inr result, w1) \<Rightarrow>
          let s1 = (if returncode result = 0 then
                      log_as SUCCESS (''Command '' @ [QUOTE] @ command self @ [QUOTE] @
                                      '' completed successfully.'') (fst s0, w1)
                    else
                      log_as WARNING (''Command '' @ [QUOTE] @ command self @ [QUOTE] @
                                      '' exited with code '' @ str_int (returncode result) @ ''.'')
                        (fst s0, w1));
              s2 = (if stdout result \<noteq> [] then
                      log_as INFO (''--- STDOUT ---'' @ [NL] @ strip (stdout result)) s1
                    else s1);
              s3 = (if stderr result \<noteq> [] then
                      log_as ERROR (''--- STDERR ---'' @ [NL] @ strip (stderr result)) s2
                    else s2)
          in (Inr result, self\<lparr>logger := fst s3\<rparr>, snd s3)
      | (Inl (CalledProcessError rc cmd out err), w1) \<Rightarrow>
          let s1 = log_as ERROR (''Command '' @ [QUOTE] @ command self @ [QUOTE] @
                                 '' failed with error: '' @
                                 exn_str w1 (CalledProcessError rc cmd out err)) (fst s0, w1);
              w2 = (if out \<noteq> [] then log (fst s1) (''--- STDOUT ---'' @ [NL] @ strip out) (snd s1)
                    else snd s1);
              w3 = (if err \<noteq> [] then log (fst s1) (''--- STDERR ---'' @ [NL] @ strip err) w2
                    else w2)
          in (Inl (CalledProcessError rc cmd out err), self\<lparr>logger := fst s1\<rparr>, w3)
      | (Inl (FileNotFoundError m), w1) \<Rightarrow>
          let s1 = log_as ERROR (''Command '' @ [QUOTE] @ command self @ [QUOTE] @
                                 '' not found. Please ensure it is in your PATH.'') (fst s0, w1)
          in (Inl (FileNotFoundError m), self\<lparr>logger := fst s1\<rparr>, snd s1)
      | (Inl (OtherException m), w1) \<Rightarrow>
          let s1 = log_as ERROR (''An unexpected error occurred while running command '' @
                                 [QUOTE] @ command self @ [QUOTE] @ '': '' @
                                 exn_str w1 (OtherException m)) (fst s0, w1)
          in (Inl (OtherException m), self\<lparr>logger := fst s1\<rparr>, snd s1))"

section \<open>Lines as they are written, and sample inputs\<close>

text \<open>
  The console line and the file line of a message of severity \<open>s\<close> stamped \<open>t\<close>, as
  \<open>_format_content\<close> and \<open>log\<close> build them.
\<close>

definition rendered :: "LogType \<Rightarrow> datetime \<Rightarrow> string \<Rightarrow> string" where
  "rendered s t content =
     get_color (Log_init s DEBUG None) @ ''['' @ strftime t @ '' '' @ LogType_name s @ '']: '' @
     content @ ANSI_RESET"

definition plain_line :: "LogType \<Rightarrow> datetime \<Rightarrow> string \<Rightarrow> string" where
  "plain_line s t content =
     ''['' @ strftime t @ '' '' @ LogType_name s @ '']: '' @ content @ [NL]"

definition below_level :: "Log \<Rightarrow> bool" where
  "below_level lg = (LogType_value (type lg) < LogType_value (log_level lg))"

text \<open>The logger of a \<open>Cmd\<close> as \<open>Cmd.__init__\<close> leaves it: level \<open>DEBUG\<close>, no file.\<close>

definition plain_logger :: "Log \<Rightarrow> bool" where
  "plain_logger lg = (log_level lg = DEBUG \<and> log_file_path lg = None)"

text \<open>
  \<open>self.logger.type = t\<close> followed by \<open>self.logger.log(c)\<close>, for each pair of a list in
  turn.
\<close>

fun log_seq :: "(LogType \<times> string) list \<Rightarrow> Log \<times> world \<Rightarrow> Log \<times> world" where
  "log_seq [] s = s"
| "log_seq ((t, c) # ms) s = log_seq ms (log_as t c s)"

text \<open>
  The messages \<open>run\<close> passes to its logger, each with the type the logger has for it:
  first the announcement, at \<open>INFO\<close>; then, by the outcome of the call, the messages of
  the branch or handler that the outcome selects.
\<close>

definition announcement :: "Cmd \<Rightarrow> string" where
  "announcement self = ''Running command: '' @ [QUOTE] @ full_command self @ [QUOTE] @ ''...''"

definition run_calls :: "Cmd \<Rightarrow> world \<Rightarrow> exn + CompletedProcess \<Rightarrow> (LogType \<times> string) list" where
  "run_calls self w outcome =
     (case outcome of
        Inr result \<Rightarrow>
          [if returncode result = 0 then
             (SUCCESS, ''Command '' @ [QUOTE] @ command self @ [QUOTE] @
                       '' completed successfully.'')
           else
             (WARNING, ''Command '' @ [QUOTE] @ command self @ [QUOTE] @ '' exited with code '' @
                       str_int (returncode result) @ ''.'')] @
          (if stdout result \<noteq> [] then [(INFO, ''--- STDOUT ---'' @ [NL] @ strip (stdout result))]
           else []) @
          (if stderr result \<noteq> [] then [(ERROR, ''--- STDERR ---'' @ [NL] @ strip (stderr result))]
           else [])
      | Inl (CalledProcessError rc cmd out err) \<Rightarrow>
          [(ERROR, ''Command '' @ [QUOTE] @ command self @ [QUOTE] @ '' failed with error: '' @
                   exn_str w (CalledProcessError rc cmd out err))] @
          (if out \<noteq> [] then [(ERROR, ''--- STDOUT ---'' @ [NL] @ strip out)] else []) @
          (if err \<noteq> [] then [(ERROR, ''--- STDERR ---'' @ [NL] @ strip err)] else [])
      | Inl (FileNotFoundError m) \<Rightarrow>
          [(ERROR, ''Command '' @ [QUOTE] @ command self @ [QUOTE] @
                   '' not found. Please ensure it is in your PATH.'')]
      | Inl (OtherException m) \<Rightarrow>
          [(ERROR, ''An unexpected error occurred while running command '' @ [QUOTE] @
                   command self @ [QUOTE] @ '': '' @ m)])"

text \<open>
  What a list of messages puts on the console through a logger: a message below the
  level prints nothing and reads no clock; one at or above it prints its line and,
  when the logger has a file whose append fails, the report of the second logger,
  unless \<open>ERROR\<close> is below the level. Each line printed costs two readings of the clock.
\<close>

definition write_failure :: "Log \<Rightarrow> (string \<rightharpoonup> io_failure) \<Rightarrow> string option" where
  "write_failure lg iof =
     (if truthy_path (log_file_path lg)
      then map_option failure_text (iof (the (log_file_path lg))) else None)"

definition lines_of ::
  "Log \<Rightarrow> (string \<rightharpoonup> io_failure) \<Rightarrow> (nat \<Rightarrow> datetime) \<Rightarrow> nat \<Rightarrow> LogType \<Rightarrow> string \<Rightarrow> string list" where
  "lines_of lg iof clk r s c =
     (if LogType_value s < LogType_value (log_level lg) then []
      else rendered s (clk r) c #
        (case write_failure lg iof of
           None \<Rightarrow> []
         | Some e \<Rightarrow>
             if LogType_value ERROR < LogType_value (log_level lg) then []
             else [rendered ERROR (clk (r + 2))
                     (''Failed to write to log file '' @ [QUOTE] @ the (log_file_path lg) @
                      [QUOTE] @ '': '' @ e)]))"

fun log_lines ::
  "Log \<Rightarrow> (string \<rightharpoonup> io_failure) \<Rightarrow> (nat \<Rightarrow> datetime) \<Rightarrow> nat \<Rightarrow> (LogType \<times> string) list \<Rightarrow>
   string list" where
  "log_lines lg iof clk r [] = []"
| "log_lines lg iof clk r ((s, c) # ms) =
     lines_of lg iof clk r s c @
     log_lines lg iof clk (r + 2 * length (lines_of lg iof clk r s c)) ms"

definition t0 :: datetime where
  "t0 = \<lparr>year = 2024, month = 1, day = 2, hour = 3, minute = 4, second = 5\<rparr>"

text \<open>
  A sample world: a frozen clock, an empty console, no files, one path that cannot be
  opened and one that cannot be written, and a shell that knows five command lines.
\<close>

definition example_shell :: "string \<Rightarrow> shell_result" where
  "example_shell c =
     (if c = ''false '' then Exited 1 [] []
      else if c = ''no_such_program '' then
        Exited 127 [] (''/bin/sh: 1: no_such_program: not found'' @ [NL])
      else if c = ''echo hi'' then Exited 0 (''hi'' @ [NL]) []
      else if c = ''cc bad.c'' then
        Exited 1 (''compiling bad.c'' @ [NL]) (''bad.c:1: error: expected declaration'' @ [NL])
      else Exited 0 [] [])"

definition example_world :: world where
  "example_world =
     \<lparr>console = [], clock = (\<lambda>_. t0), reads = 0, files = Map.empty,
      io_fault =
        [''/nonexistent/nob.log'' \<mapsto>
           AtOpen (''[Errno 2] No such file or directory: '' @ [QUOTE] @ ''/nonexistent/nob.log'' @
                   [QUOTE]),
         ''/full/nob.log'' \<mapsto> AfterOpen ''[Errno 28] No space left on device'' 0],
      opens = [], shell = example_shell, spawned = [], signal_repr = Map.empty\<rparr>"

text \<open>
  Two commands whose logger was replaced after \<open>Cmd.__init__\<close>, \<open>logger\<close> being a
  plain attribute: one that prints only \<open>SUCCESS\<close>, one that prints from \<open>WARNING\<close> up.
\<close>

definition strict_cc :: Cmd where
  "strict_cc = \<lparr>command = ''cc'', flags = [''bad.c''], logger = Log_init INFO SUCCESS None\<rparr>"

definition quiet_echo :: Cmd where
  "quiet_echo = \<lparr>command = ''echo'', flags = [''hi''], logger = Log_init INFO WARNING None\<rparr>"

text \<open>
  The shape \<open>YYYY-MM-DD HH:MM:SS\<close>, and the ranges of the fields of a \<open>datetime\<close>.
\<close>

definition is_digit :: "char \<Rightarrow> bool" where
  "is_digit c = (c \<in> set ''0123456789'')"

definition timestamp_shape :: "(char \<Rightarrow> bool) list" where
  "timestamp_shape =
     replicate 4 is_digit @ [(=) CHR ''-''] @ replicate 2 is_digit @ [(=) CHR ''-''] @
     replicate 2 is_digit @ [(=) CHR '' ''] @ replicate 2 is_digit @ [(=) CHR '':''] @
     replicate 2 is_digit @ [(=) CHR '':''] @ replicate 2 is_digit"

definition is_timestamp :: "string \<Rightarrow> bool" where
  "is_timestamp s = list_all2 (\<lambda>p c. p c) timestamp_shape s"

definition valid_datetime :: "datetime \<Rightarrow> bool" where
  "valid_datetime t =
     (1 \<le> year t \<and> year t \<le> 9999 \<and> 1 \<le> month t \<and> month t \<le> 12 \<and> 1 \<le> day t \<and> day t \<le> 31 \<and>
      hour t < 24 \<and> minute t < 60 \<and> second t < 60)"

section \<open>What one call of \<open>log\<close> does\<close>

lemma get_color_type: "get_color lg = get_color (Log_init (type lg) DEBUG None)"
  by (simp add: get_color_def Log_init_def)

lemma log_below: "below_level lg \<Longrightarrow> log lg c w = w"
  by (simp add: log.simps below_level_def)

lemma log_no_file:
  "\<not> below_level lg \<Longrightarrow> \<not> truthy_path (log_file_path lg) \<Longrightarrow>
   log lg c w = w\<lparr>console := console w @ [rendered (type lg) (clock w (reads w)) c],
                  reads := reads w + 2\<rparr>"
  by (simp add: log.simps [of lg] below_level_def format_content_def now_def print_def rendered_def
      get_color_type [of lg])

lemma log_file_ok:
  "\<not> below_level lg \<Longrightarrow> log_file_path lg = Some p \<Longrightarrow> p \<noteq> [] \<Longrightarrow> io_fault w p = None \<Longrightarrow>
   log lg c w = w\<lparr>console := console w @ [rendered (type lg) (clock w (reads w)) c],
                  reads := reads w + 2,
                  opens := opens w @ [p],
                  files := (files w)(p \<mapsto> (case files w p of None \<Rightarrow> [] | Some old \<Rightarrow> old) @
                                       plain_line (type lg) (clock w (Suc (reads w))) c)\<rparr>"
  by (simp add: log.simps [of lg] below_level_def format_content_def now_def print_def rendered_def
      get_color_type [of lg] truthy_path_def append_file_def plain_line_def split: option.splits)

lemma log_file_fault:
  "\<not> below_level lg \<Longrightarrow> log_file_path lg = Some p \<Longrightarrow> p \<noteq> [] \<Longrightarrow> io_fault w p = Some f \<Longrightarrow>
   log lg c w =
     log (Log_init ERROR (log_level lg) None)
       (''Failed to write to log file '' @ [QUOTE] @ p @ [QUOTE] @ '': '' @ failure_text f)
       (snd (append_file p (plain_line (type lg) (clock w (Suc (reads w))) c)
               (w\<lparr>reads := reads w + 2,
                  console := console w @ [rendered (type lg) (clock w (reads w)) c]\<rparr>)))"
  by (cases f)
     (simp_all add: log.simps [of lg] below_level_def format_content_def now_def print_def
       rendered_def get_color_type [of lg] truthy_path_def append_file_def plain_line_def Let_def
       split: option.splits)

lemma append_file_frame:
  "console (snd (append_file p txt w)) = console w"
  "reads (snd (append_file p txt w)) = reads w"
  "clock (snd (append_file p txt w)) = clock w"
  "opens (snd (append_file p txt w)) = opens w @ [p]"
  "io_fault (snd (append_file p txt w)) = io_fault w"
  "shell (snd (append_file p txt w)) = shell w"
  "spawned (snd (append_file p txt w)) = spawned w"
  "signal_repr (snd (append_file p txt w)) = signal_repr w"
  by (simp_all add: append_file_def Let_def split: option.splits io_failure.splits)

lemma append_file_AtOpen:
  "io_fault w p = Some (AtOpen e) \<Longrightarrow> files (snd (append_file p txt w)) = files w"
  by (simp add: append_file_def)

lemma append_file_AfterOpen:
  "io_fault w p = Some (AfterOpen e n) \<Longrightarrow>
   files (snd (append_file p txt w)) =
     (files w)(p \<mapsto> (case files w p of None \<Rightarrow> [] | Some old \<Rightarrow> old) @ take n txt)"
  by (simp add: append_file_def split: option.splits)

lemma log_secondary:
  "log (Log_init ERROR l None) c w =
     (if LogType_value ERROR < LogType_value l then w
      else w\<lparr>console := console w @ [rendered ERROR (clock w (reads w)) c],
              reads := reads w + 2\<rparr>)"
proof (cases "below_level (Log_init ERROR l None)")
  case True
  then show ?thesis by (simp add: log_below) (simp add: below_level_def Log_init_def)
next
  case False
  have "\<not> truthy_path (log_file_path (Log_init ERROR l None))"
    by (simp add: truthy_path_def Log_init_def)
  from log_no_file [OF False this] False show ?thesis
    by (simp add: below_level_def Log_init_def)
qed

lemma log_failed_write_files:
  assumes "\<not> below_level lg" and "log_file_path lg = Some p" and "p \<noteq> []"
    and "io_fault w p = Some f"
  shows "files (log lg c w) =
           (case f of
              AtOpen e \<Rightarrow> files w
            | AfterOpen e n \<Rightarrow>
                (files w)(p \<mapsto> (case files w p of None \<Rightarrow> [] | Some old \<Rightarrow> old) @
                                take n (plain_line (type lg) (clock w (Suc (reads w))) c)))"
proof (cases f)
  case (AtOpen e)
  with assms(4) have io: "io_fault w p = Some (AtOpen e)" by simp
  from log_file_fault [OF assms] AtOpen show ?thesis
    by (simp add: log_secondary append_file_AtOpen [of _ p e] io)
next
  case (AfterOpen e n)
  with assms(4) have io: "io_fault w p = Some (AfterOpen e n)" by simp
  from log_file_fault [OF assms] AfterOpen show ?thesis
    by (simp add: log_secondary append_file_AfterOpen [of _ p e n] io)
qed

lemma truthy_pathE:
  "truthy_path (log_file_path lg) \<Longrightarrow> \<exists>p. log_file_path lg = Some p \<and> p \<noteq> []"
  by (auto simp: truthy_path_def split: option.splits)

lemma log_take_console:
  assumes nb: "\<not> below_level lg"
  shows "take (Suc (length (console w))) (console (log lg c w)) =
           console w @ [rendered (type lg) (clock w (reads w)) c]"
proof (cases "truthy_path (log_file_path lg)")
  case False
  from log_no_file [OF nb False] show ?thesis by simp
next
  case True
  then obtain p where p: "log_file_path lg = Some p" "p \<noteq> []"
    using truthy_pathE by blast
  show ?thesis
  proof (cases "io_fault w p")
    case None
    from log_file_ok [OF nb p None] show ?thesis by simp
  next
    case (Some e)
    from log_file_fault [OF nb p Some] show ?thesis
        by (simp add: log_secondary append_file_frame)
  qed
qed

lemma log_opens:
  "opens (log lg content w) =
     (if \<not> below_level lg \<and> truthy_path (log_file_path lg)
      then opens w @ [the (log_file_path lg)] else opens w)"
proof (cases "below_level lg")
  case True
  then show ?thesis by (simp add: log_below)
next
  case nb: False
  show ?thesis
  proof (cases "truthy_path (log_file_path lg)")
    case False
    from log_no_file [OF nb False] nb False show ?thesis by simp
  next
    case True
    then obtain p where p: "log_file_path lg = Some p" "p \<noteq> []"
      using truthy_pathE by blast
    show ?thesis
    proof (cases "io_fault w p")
      case None
      from log_file_ok [OF nb p None] nb True p show ?thesis by simp
    next
      case (Some e)
      from log_file_fault [OF nb p Some] nb True p show ?thesis
        by (simp add: log_secondary append_file_frame)
    qed
  qed
qed

lemma log_frame:
  "spawned (log lg c w) = spawned w \<and> shell (log lg c w) = shell w \<and>
   clock (log lg c w) = clock w \<and> io_fault (log lg c w) = io_fault w \<and>
   signal_repr (log lg c w) = signal_repr w"
proof (cases "below_level lg")
  case True
  then show ?thesis by (simp add: log_below)
next
  case nb: False
  show ?thesis
  proof (cases "truthy_path (log_file_path lg)")
    case False
    from log_no_file [OF nb False] show ?thesis by simp
  next
    case True
    then obtain p where p: "log_file_path lg = Some p" "p \<noteq> []"
      using truthy_pathE by blast
    show ?thesis
    proof (cases "io_fault w p")
      case None
      from log_file_ok [OF nb p None] show ?thesis by simp
    next
      case (Some e)
      from log_file_fault [OF nb p Some] show ?thesis
        by (simp add: log_secondary append_file_frame)
    qed
  qed
qed

section \<open>Claims about the logger\<close>

text \<open>
  C1. A logger of minimum level \<open>L\<close> whose severity is \<open>S\<close> prints the message exactly
  when \<open>S\<close> is at or above \<open>L\<close>, in the order \<open>DEBUG < INFO < WARNING < ERROR < SUCCESS\<close>
  given by the values 0 to 4. When it prints, the message rendered at severity \<open>S\<close> is
  the next console line. When \<open>S\<close> is below \<open>L\<close> the call leaves the world as it was:
  nothing on the console, no file opened or written, the clock not read.
\<close>

theorem log_emits_iff_at_or_above_level:
  "(console (log lg content w) \<noteq> console w) =
     (LogType_value (log_level lg) \<le> LogType_value (type lg)) \<and>
   (LogType_value (log_level lg) \<le> LogType_value (type lg) \<longrightarrow>
      take (Suc (length (console w))) (console (log lg content w)) =
        console w @ [rendered (type lg) (clock w (reads w)) content]) \<and>
   (LogType_value (type lg) < LogType_value (log_level lg) \<longrightarrow> log lg content w = w) \<and>
   map LogType_value [DEBUG, INFO, WARNING, ERROR, SUCCESS] = [0, 1, 2, 3, 4]"
proof (cases "below_level lg")
  case True
  then show ?thesis by (simp add: log_below) (simp add: below_level_def)
next
  case False
  have "length (take (Suc (length (console w))) (console (log lg content w))) =
        Suc (length (console w))"
    by (simp only: log_take_console [OF False, of w content] length_append_singleton)
  then have "console (log lg content w) \<noteq> console w"
    by auto
  with False log_take_console [OF False, of w content] show ?thesis
    by (simp add: below_level_def)
qed

theorem log_emits_iff_at_or_above_level_witness:
  "LogType_value (log_level (Log_init WARNING INFO None)) \<le>
     LogType_value (type (Log_init WARNING INFO None)) \<and>
   console (log (Log_init WARNING INFO None) ''disk low'' example_world) \<noteq> [] \<and>
   take (Suc 0) (console (log (Log_init WARNING INFO None) ''disk low'' example_world)) =
     [rendered WARNING t0 ''disk low''] \<and>
   LogType_value (type (Log_init DEBUG INFO None)) <
     LogType_value (log_level (Log_init DEBUG INFO None)) \<and>
   log (Log_init DEBUG INFO None) ''probe'' example_world = example_world"
  using log_emits_iff_at_or_above_level [of "Log_init WARNING INFO None" "''disk low''" example_world]
    log_emits_iff_at_or_above_level [of "Log_init DEBUG INFO None" "''probe''" example_world]
  by (simp add: Log_init_def example_world_def)

text \<open>
  C9. The logger that reports a failed file write is \<open>Log(ERROR, log_level)\<close>, built
  without a file path: a call of \<open>log\<close> on it opens no file and leaves the files as
  they were. So any call of \<open>log\<close> opens at most one file, the logger's own, and only
  when the message is at or above the level and the path is truthy; the report of a
  failure is never followed by a further write or a further report.
\<close>

theorem secondary_logger_opens_no_file:
  "log_file_path (Log_init ERROR l None) = None \<and>
   opens (log (Log_init ERROR l None) msg w) = opens w \<and>
   files (log (Log_init ERROR l None) msg w) = files w \<and>
   opens (log lg content w) =
     (if \<not> below_level lg \<and> truthy_path (log_file_path lg)
      then opens w @ [the (log_file_path lg)] else opens w)"
proof -
  have a: "log_file_path (Log_init ERROR l None) = None"
    by (simp add: Log_init_def)
  have b: "opens (log (Log_init ERROR l None) msg w) = opens w"
    by (simp add: log_secondary)
  have c: "files (log (Log_init ERROR l None) msg w) = files w"
    by (simp add: log_secondary)
  from a b c log_opens [of lg content w] show ?thesis
    by blast
qed

theorem secondary_logger_opens_no_file_witness:
  "opens (log (Log_init INFO DEBUG (Some ''/nonexistent/nob.log'')) ''start'' example_world) =
     [''/nonexistent/nob.log''] \<and>
   files (log (Log_init ERROR DEBUG None) ''report'' example_world) = Map.empty"
  using secondary_logger_opens_no_file
    [of DEBUG "''report''" example_world "Log_init INFO DEBUG (Some ''/nonexistent/nob.log'')" "''start''"]
  by (simp add: Log_init_def example_world_def below_level_def truthy_path_def)

text \<open>
  C4. A logger of severity and level \<open>SUCCESS\<close> whose file cannot be written prints its
  message and nothing else: the failure is caught but not reported, since the second
  logger takes the level of the first and \<open>ERROR\<close> is below \<open>SUCCESS\<close>.
\<close>

theorem file_write_failure_unreported_counterexample:
  "console (log (Log_init SUCCESS SUCCESS (Some ''/nonexistent/nob.log'')) ''built'' example_world) =
     [rendered SUCCESS t0 ''built'']"
proof -
  have nb: "\<not> below_level (Log_init SUCCESS SUCCESS (Some ''/nonexistent/nob.log''))"
    by (simp add: below_level_def Log_init_def)
  have p: "log_file_path (Log_init SUCCESS SUCCESS (Some ''/nonexistent/nob.log'')) =
             Some ''/nonexistent/nob.log''"
    by (simp add: Log_init_def)
  have io: "io_fault example_world ''/nonexistent/nob.log'' =
              Some (AtOpen (''[Errno 2] No such file or directory: '' @ [QUOTE] @
                            ''/nonexistent/nob.log'' @ [QUOTE]))"
    by (simp add: example_world_def)
  from log_file_fault [OF nb p _ io, of "''built''"] show ?thesis
    by (simp add: Log_init_def log_secondary [unfolded Log_init_def] append_file_frame)
       (simp add: example_world_def)
qed

text \<open>
  C4, as amended. When the append to a truthy path raises \<open>IOError\<close>, at \<open>open\<close> or
  later, \<open>log\<close> still returns: the message is on the console, the file was opened
  once, and the failure is reported by the second logger, at \<open>ERROR\<close>, exactly when the
  level is at or below \<open>ERROR\<close>.
\<close>

theorem file_write_failure_absorbed:
  assumes "LogType_value (log_level lg) \<le> LogType_value (type lg)"
    and "log_file_path lg = Some p" and "p \<noteq> []" and "io_fault w p = Some f"
  shows "console (log lg content w) =
           console w @ [rendered (type lg) (clock w (reads w)) content] @
           (if LogType_value (log_level lg) \<le> LogType_value ERROR
            then [rendered ERROR (clock w (reads w + 2))
                    (''Failed to write to log file '' @ [QUOTE] @ p @ [QUOTE] @ '': '' @
                     failure_text f)]
            else []) \<and>
         opens (log lg content w) = opens w @ [p]"
proof -
  from assms(1) have nb: "\<not> below_level lg" by (simp add: below_level_def)
  from log_file_fault [OF nb assms(2,3,4)] show ?thesis
    by (simp add: log_secondary append_file_frame)
qed

theorem file_write_failure_absorbed_witness:
  "console (log (Log_init INFO DEBUG (Some ''/nonexistent/nob.log'')) ''start'' example_world) =
     [rendered INFO t0 ''start'',
      rendered ERROR t0 (''Failed to write to log file '' @ [QUOTE] @ ''/nonexistent/nob.log'' @
                         [QUOTE] @ '': [Errno 2] No such file or directory: '' @ [QUOTE] @
                         ''/nonexistent/nob.log'' @ [QUOTE])] \<and>
   console (log (Log_init INFO DEBUG (Some ''/full/nob.log'')) ''start'' example_world) =
     [rendered INFO t0 ''start'',
      rendered ERROR t0 (''Failed to write to log file '' @ [QUOTE] @ ''/full/nob.log'' @
                         [QUOTE] @ '': [Errno 28] No space left on device'')]"
  using file_write_failure_absorbed
    [of "Log_init INFO DEBUG (Some ''/nonexistent/nob.log'')" "''/nonexistent/nob.log''"
        example_world
        "AtOpen (''[Errno 2] No such file or directory: '' @ [QUOTE] @ ''/nonexistent/nob.log'' @
                 [QUOTE])" "''start''"]
    file_write_failure_absorbed
    [of "Log_init INFO DEBUG (Some ''/full/nob.log'')" "''/full/nob.log''" example_world
        "AfterOpen ''[Errno 28] No space left on device'' 0" "''start''"]
  by (simp add: Log_init_def example_world_def)

section \<open>What \<open>run\<close> hands to the shell\<close>

lemma log_as_frame:
  "spawned (snd (log_as t c s)) = spawned (snd s) \<and> shell (snd (log_as t c s)) = shell (snd s) \<and>
   signal_repr (snd (log_as t c s)) = signal_repr (snd s)"
  by (cases s) (simp add: log_as_def log_frame)

lemma run_spawned: "spawned (snd (snd (run self chk w))) = spawned w @ [full_command self]"
proof (cases "shell w (full_command self)")
  case (Exited rc out err)
  then show ?thesis
    by (simp add: run_def subprocess_run_def Let_def log_as_frame log_frame)
next
  case (NoShell m)
  then show ?thesis
    by (simp add: run_def subprocess_run_def Let_def log_as_frame log_frame)
next
  case (Fault m)
  then show ?thesis
    by (simp add: run_def subprocess_run_def Let_def log_as_frame log_frame)
qed

lemma join_Cons: "ys \<noteq> [] \<Longrightarrow> join sep (x # ys) = x @ sep @ join sep ys"
  by (cases ys) simp_all

lemma join_append:
  "join sep (xs @ ys) =
     (if xs = [] then join sep ys else if ys = [] then join sep xs
      else join sep xs @ sep @ join sep ys)"
  by (induction sep xs rule: join.induct) (auto simp: join_Cons)

lemma add_flags_twice: "add_flags (add_flags self A) B = add_flags self (A @ B)"
  by (simp add: add_flags_def)

section \<open>Claims about the command line\<close>

text \<open>
  C5. Adding the flags \<open>A\<close> and then the flags \<open>B\<close> gives the same command as adding
  \<open>A @ B\<close> at once, and \<open>run\<close> behaves the same on both. The string \<open>run\<close> hands to
  the shell is the base command, one space, and the flags joined by single spaces in
  the order they were added: joining \<open>A @ B\<close> is joining \<open>A\<close>, one space, joining \<open>B\<close>.
\<close>

theorem flags_joined_in_order_added:
  "add_flags (add_flags self A) B = add_flags self (A @ B) \<and>
   flags (add_flags (add_flags (Cmd_init base) A) B) = A @ B \<and>
   run (add_flags (add_flags self A) B) chk w = run (add_flags self (A @ B)) chk w \<and>
   spawned (snd (snd (run self chk w))) =
     spawned w @ [command self @ '' '' @ join '' '' (flags self)] \<and>
   join '' '' [x] = x \<and>
   join '' '' (A @ B) =
     (if A = [] then join '' '' B else if B = [] then join '' '' A
      else join '' '' A @ '' '' @ join '' '' B)"
proof -
  have "spawned (snd (snd (run self chk w))) =
          spawned w @ [command self @ '' '' @ join '' '' (flags self)]"
    using run_spawned [of self chk w] by (simp add: full_command_def)
  then show ?thesis
    using join_append [of "'' ''" A B]
    by (simp add: add_flags_twice) (simp add: add_flags_def Cmd_init_def)
qed

theorem flags_joined_in_order_added_witness:
  "spawned (snd (snd (run (add_flags (add_flags (Cmd_init ''cc'') [''main.c'', ''-o'']) [''main''])
                       False example_world))) = [''cc main.c -o main''] \<and>
   add_flags (add_flags (Cmd_init ''cc'') [''main.c'', ''-o'']) [''main''] =
     add_flags (Cmd_init ''cc'') [''main.c'', ''-o'', ''main'']"
  using flags_joined_in_order_added
    [of "Cmd_init ''cc''" "[''main.c'', ''-o'']" "[''main'']" "''cc''" False example_world "''x''"]
    flags_joined_in_order_added
    [of "add_flags (add_flags (Cmd_init ''cc'') [''main.c'', ''-o'']) [''main'']" "[]" "[]" "''cc''"
        False example_world "''x''"]
  by (simp add: add_flags_def Cmd_init_def example_world_def)

text \<open>
  C10. With no flags, the string \<open>run\<close> hands to the shell is the base command
  followed by exactly one space.
\<close>

theorem empty_flags_trailing_space:
  "flags self = [] \<Longrightarrow>
   full_command self = command self @ '' '' \<and>
   spawned (snd (snd (run self chk w))) = spawned w @ [command self @ '' '']"
  using run_spawned [of self chk w] by (simp add: full_command_def)

theorem empty_flags_trailing_space_witness:
  "flags (Cmd_init ''ls'') = [] \<and>
   spawned (snd (snd (run (Cmd_init ''ls'') False example_world))) = [''ls '']"
  using empty_flags_trailing_space [of "Cmd_init ''ls''" False example_world]
  by (simp add: Cmd_init_def example_world_def)

section \<open>What \<open>run\<close> prints and returns\<close>

text \<open>
  The four ways a call of \<open>run\<close> can go, for a command whose logger is the one
  \<open>Cmd.__init__\<close> made: every message is printed, and nothing is written to a file.
\<close>

lemma log_plain:
  "plain_logger lg \<Longrightarrow>
   log (lg\<lparr>type := t\<rparr>) c w =
     w\<lparr>console := console w @ [rendered t (clock w (reads w)) c], reads := reads w + 2\<rparr>"
proof -
  assume pl: "plain_logger lg"
  have nb: "\<not> below_level (lg\<lparr>type := t\<rparr>)"
    using pl by (cases t) (simp_all add: below_level_def plain_logger_def)
  have nt: "\<not> truthy_path (log_file_path (lg\<lparr>type := t\<rparr>))"
    using pl by (simp add: truthy_path_def plain_logger_def)
  from log_no_file [OF nb nt] show ?thesis by simp
qed

lemma log_as_fst: "fst (log_as t c s) = (fst s)\<lparr>type := t\<rparr>"
  by (cases s) (simp add: log_as_def)

lemma log_as_plain:
  "plain_logger (fst s) \<Longrightarrow>
   log_as t c s =
     ((fst s)\<lparr>type := t\<rparr>,
      (snd s)\<lparr>console := console (snd s) @ [rendered t (clock (snd s) (reads (snd s))) c],
              reads := reads (snd s) + 2\<rparr>)"
  by (cases s) (simp add: log_as_def log_plain)

lemma plain_logger_type [simp]: "plain_logger (lg\<lparr>type := t\<rparr>) = plain_logger lg"
  by (simp add: plain_logger_def)

lemma run_returns:
  assumes pl: "plain_logger (logger self)"
    and sh: "shell w (full_command self) = Exited rc out err"
    and ok: "\<not> (chk \<and> rc \<noteq> 0)"
  shows "fst (run self chk w) =
           Inr \<lparr>args = full_command self, returncode = rc, stdout = out, stderr = err\<rparr>"
    and "console (snd (snd (run self chk w))) =
           console w @
           [rendered INFO (clock w (reads w))
              (''Running command: '' @ [QUOTE] @ full_command self @ [QUOTE] @ ''...''),
            (if rc = 0 then
               rendered SUCCESS (clock w (reads w + 2))
                 (''Command '' @ [QUOTE] @ command self @ [QUOTE] @ '' completed successfully.'')
             else
               rendered WARNING (clock w (reads w + 2))
                 (''Command '' @ [QUOTE] @ command self @ [QUOTE] @ '' exited with code '' @
                  str_int rc @ ''.''))] @
           (if out \<noteq> [] then
              [rendered INFO (clock w (reads w + 4)) (''--- STDOUT ---'' @ [NL] @ strip out)]
            else []) @
           (if err \<noteq> [] then
              [rendered ERROR (clock w (reads w + (if out \<noteq> [] then 6 else 4)))
                 (''--- STDERR ---'' @ [NL] @ strip err)]
            else [])"
    and "reads (snd (snd (run self chk w))) =
           reads w + 4 + (if out \<noteq> [] then 2 else 0) + (if err \<noteq> [] then 2 else 0)"
  using pl sh ok
  by (auto simp add: run_def subprocess_run_def Let_def log_as_plain log_as_fst eval_nat_numeral)

lemma run_raises:
  assumes pl: "plain_logger (logger self)"
    and sh: "shell w (full_command self) = Exited rc out err"
    and bad: "chk" "rc \<noteq> 0"
  shows "fst (run self chk w) = Inl (CalledProcessError rc (full_command self) out err)"
    and "console (snd (snd (run self chk w))) =
           console w @
           [rendered INFO (clock w (reads w))
              (''Running command: '' @ [QUOTE] @ full_command self @ [QUOTE] @ ''...''),
            rendered ERROR (clock w (reads w + 2))
              (''Command '' @ [QUOTE] @ command self @ [QUOTE] @ '' failed with error: '' @
               exn_str w (CalledProcessError rc (full_command self) out err))] @
           (if out \<noteq> [] then
              [rendered ERROR (clock w (reads w + 4)) (''--- STDOUT ---'' @ [NL] @ strip out)]
            else []) @
           (if err \<noteq> [] then
              [rendered ERROR (clock w (reads w + (if out \<noteq> [] then 6 else 4)))
                 (''--- STDERR ---'' @ [NL] @ strip err)]
            else [])"
    and "reads (snd (snd (run self chk w))) =
           reads w + 4 + (if out \<noteq> [] then 2 else 0) + (if err \<noteq> [] then 2 else 0)"
  using pl sh bad
  by (auto simp add: run_def subprocess_run_def Let_def log_as_plain log_as_fst log_plain eval_nat_numeral)

lemma run_shell_missing:
  assumes pl: "plain_logger (logger self)"
    and sh: "shell w (full_command self) = NoShell m"
  shows "fst (run self chk w) = Inl (FileNotFoundError m)"
    and "console (snd (snd (run self chk w))) =
           console w @
           [rendered INFO (clock w (reads w))
              (''Running command: '' @ [QUOTE] @ full_command self @ [QUOTE] @ ''...''),
            rendered ERROR (clock w (reads w + 2))
              (''Command '' @ [QUOTE] @ command self @ [QUOTE] @
               '' not found. Please ensure it is in your PATH.'')]"
    and "reads (snd (snd (run self chk w))) = reads w + 4"
  using pl sh
  by (auto simp add: run_def subprocess_run_def Let_def log_as_plain log_as_fst eval_nat_numeral)

lemma run_fault:
  assumes pl: "plain_logger (logger self)"
    and sh: "shell w (full_command self) = Fault m"
  shows "fst (run self chk w) = Inl (OtherException m)"
    and "console (snd (snd (run self chk w))) =
           console w @
           [rendered INFO (clock w (reads w))
              (''Running command: '' @ [QUOTE] @ full_command self @ [QUOTE] @ ''...''),
            rendered ERROR (clock w (reads w + 2))
              (''An unexpected error occurred while running command '' @ [QUOTE] @
               command self @ [QUOTE] @ '': '' @ m)]"
    and "reads (snd (snd (run self chk w))) = reads w + 4"
  using pl sh
  by (auto simp add: run_def subprocess_run_def Let_def log_as_plain log_as_fst eval_nat_numeral)

lemma run_logger_after:
  "fst (snd (run self chk w)) =
     self\<lparr>logger := (logger self)\<lparr>type :=
       (case fst (run self chk w) of
          Inl e \<Rightarrow> ERROR
        | Inr r \<Rightarrow> if stderr r \<noteq> [] then ERROR else if stdout r \<noteq> [] then INFO
                   else if returncode r = 0 then SUCCESS else WARNING)\<rparr>\<rparr>"
  by (cases "shell w (full_command self)")
     (auto simp add: run_def subprocess_run_def Let_def log_as_fst log_as_frame)

lemma strftime_t0: "strftime t0 = ''2024-01-02 03:04:05''"
  by (simp add: strftime_def t0_def zero_pad_def str_nat.simps digit_char_def)

lemma plain_Cmd_init: "plain_logger (logger (Cmd_init c))"
  by (simp add: plain_logger_def Cmd_init_def Log_init_def)

section \<open>The messages of a call and what they print\<close>

lemma log_console_reads:
  "console (log lg c w) = console w @ lines_of lg (io_fault w) (clock w) (reads w) (type lg) c \<and>
   reads (log lg c w) =
     reads w + 2 * length (lines_of lg (io_fault w) (clock w) (reads w) (type lg) c)"
proof (cases "below_level lg")
  case True
  then show ?thesis by (simp add: log_below) (simp add: below_level_def lines_of_def)
next
  case nb: False
  then have nb': "\<not> LogType_value (type lg) < LogType_value (log_level lg)"
    by (simp add: below_level_def)
  show ?thesis
  proof (cases "truthy_path (log_file_path lg)")
    case False
    from log_no_file [OF nb False] nb' False show ?thesis
      by (simp add: lines_of_def write_failure_def)
  next
    case True
    then obtain p where p: "log_file_path lg = Some p" "p \<noteq> []"
      using truthy_pathE by blast
    show ?thesis
    proof (cases "io_fault w p")
      case None
      from log_file_ok [OF nb p None] nb' True p None show ?thesis
        by (simp add: lines_of_def write_failure_def)
    next
      case (Some f)
      from log_file_fault [OF nb p Some] nb' True p Some show ?thesis
        by (simp add: lines_of_def write_failure_def log_secondary append_file_frame)
    qed
  qed
qed

lemma lines_of_type [simp]: "lines_of (lg\<lparr>type := t\<rparr>) iof clk r s c = lines_of lg iof clk r s c"
  by (simp add: lines_of_def write_failure_def split: option.splits)

lemma log_lines_type [simp]: "log_lines (lg\<lparr>type := t\<rparr>) iof clk r ms = log_lines lg iof clk r ms"
  by (induction ms arbitrary: r) auto

lemma log_as_console_reads:
  "console (snd (log_as t c (lg, w))) =
     console w @ lines_of lg (io_fault w) (clock w) (reads w) t c \<and>
   reads (snd (log_as t c (lg, w))) =
     reads w + 2 * length (lines_of lg (io_fault w) (clock w) (reads w) t c) \<and>
   clock (snd (log_as t c (lg, w))) = clock w \<and>
   io_fault (snd (log_as t c (lg, w))) = io_fault w"
  using log_console_reads [of "lg\<lparr>type := t\<rparr>" c w]
  by (simp add: log_as_def log_frame)

lemma log_seq_console_reads:
  "console (snd (log_seq ms (lg, w))) =
     console w @ log_lines lg (io_fault w) (clock w) (reads w) ms \<and>
   reads (snd (log_seq ms (lg, w))) =
     reads w + 2 * length (log_lines lg (io_fault w) (clock w) (reads w) ms) \<and>
   clock (snd (log_seq ms (lg, w))) = clock w \<and>
   io_fault (snd (log_seq ms (lg, w))) = io_fault w"
proof (induction ms arbitrary: lg w)
  case Nil
  show ?case by simp
next
  case (Cons m ms)
  obtain t c where m: "m = (t, c)" by (cases m)
  let ?s = "log_as t c (lg, w)"
  have s: "?s = (lg\<lparr>type := t\<rparr>, snd ?s)"
    by (simp add: log_as_def)
  from Cons.IH [of "lg\<lparr>type := t\<rparr>" "snd ?s"] log_as_console_reads [of t c lg w] s
  show ?case
    by (simp add: m)
qed

lemma log_seq_fst:
  "fst (log_seq ms s) = (if ms = [] then fst s else (fst s)\<lparr>type := fst (last ms)\<rparr>)"
proof (induction ms arbitrary: s)
  case Nil
  show ?case by simp
next
  case (Cons m ms)
  obtain t c where m: "m = (t, c)" by (cases m)
  from Cons.IH [of "log_as t c s"] show ?case
    by (simp add: m log_as_fst)
qed

lemma exn_str_signal: "signal_repr w' = signal_repr w \<Longrightarrow> exn_str w' e = exn_str w e"
  by (cases e) simp_all

lemma run_outcome: "fst (run self chk w) = fst (subprocess_run (full_command self) chk w)"
  by (cases "shell w (full_command self)")
     (auto simp add: run_def subprocess_run_def Let_def log_as_frame)

lemma log_as_same:
  "type (fst s) = t \<Longrightarrow> log_as t c s = (fst s, log (fst s) c (snd s))"
  by (cases s) (auto simp: log_as_def)

lemma run_as_calls:
  "snd (run self chk w) =
     (let s0 = log_as INFO (announcement self) (logger self, w);
          sF = log_seq (run_calls self w (fst (run self chk w)))
                 (fst s0, (snd s0)\<lparr>spawned := spawned (snd s0) @ [full_command self]\<rparr>)
      in (self\<lparr>logger := fst sF\<rparr>, snd sF))"
proof -
  define s0 where "s0 = log_as INFO (announcement self) (logger self, w)"
  define w1 where "w1 = (snd s0)\<lparr>spawned := spawned (snd s0) @ [full_command self]\<rparr>"
  have sh: "shell (snd s0) = shell w"
    by (simp add: s0_def log_as_frame)
  have sg: "signal_repr w1 = signal_repr w"
    by (simp add: w1_def s0_def log_as_frame)
  have r: "run self chk w =
      (case subprocess_run (full_command self) chk (snd s0) of
        (Inr result, w1) \<Rightarrow>
          let s1 = (if returncode result = 0 then
                      log_as SUCCESS (''Command '' @ [QUOTE] @ command self @ [QUOTE] @
                                      '' completed successfully.'') (fst s0, w1)
                    else
                      log_as WARNING (''Command '' @ [QUOTE] @ command self @ [QUOTE] @
                                      '' exited with code '' @ str_int (returncode result) @ ''.'')
                        (fst s0, w1));
              s2 = (if stdout result \<noteq> [] then
                      log_as INFO (''--- STDOUT ---'' @ [NL] @ strip (stdout result)) s1
                    else s1);
              s3 = (if stderr result \<noteq> [] then
                      log_as ERROR (''--- STDERR ---'' @ [NL] @ strip (stderr result)) s2
                    else s2)
          in (Inr result, self\<lparr>logger := fst s3\<rparr>, snd s3)
      | (Inl (CalledProcessError rc cmd out err), w1) \<Rightarrow>
          let s1 = log_as ERROR (''Command '' @ [QUOTE] @ command self @ [QUOTE] @
                                 '' failed with error: '' @
                                 exn_str w1 (CalledProcessError rc cmd out err)) (fst s0, w1);
              w2 = (if out \<noteq> [] then log (fst s1) (''--- STDOUT ---'' @ [NL] @ strip out) (snd s1)
                    else snd s1);
              w3 = (if err \<noteq> [] then log (fst s1) (''--- STDERR ---'' @ [NL] @ strip err) w2
                    else w2)
          in (Inl (CalledProcessError rc cmd out err), self\<lparr>logger := fst s1\<rparr>, w3)
      | (Inl (FileNotFoundError m), w1) \<Rightarrow>
          let s1 = log_as ERROR (''Command '' @ [QUOTE] @ command self @ [QUOTE] @
                                 '' not found. Please ensure it is in your PATH.'') (fst s0, w1)
          in (Inl (FileNotFoundError m), self\<lparr>logger := fst s1\<rparr>, snd s1)
      | (Inl (OtherException m), w1) \<Rightarrow>
          let s1 = log_as ERROR (''An unexpected error occurred while running command '' @
                                 [QUOTE] @ command self @ [QUOTE] @ '': '' @
                                 exn_str w1 (OtherException m)) (fst s0, w1)
          in (Inl (OtherException m), self\<lparr>logger := fst s1\<rparr>, snd s1))"
    unfolding run_def s0_def announcement_def Let_def ..
  have sub: "subprocess_run (full_command self) chk (snd s0) =
               (fst (subprocess_run (full_command self) chk w), w1)"
    by (cases "shell w (full_command self)") (simp_all add: subprocess_run_def w1_def sh Let_def)
  have goal: "snd (run self chk w) =
          (self\<lparr>logger := fst (log_seq (run_calls self w (fst (run self chk w))) (fst s0, w1))\<rparr>,
           snd (log_seq (run_calls self w (fst (run self chk w))) (fst s0, w1)))"
  proof (cases "fst (subprocess_run (full_command self) chk w)")
    case (Inr result)
    then show ?thesis
      by (simp add: run_outcome) (simp add: r sub Inr run_calls_def Let_def)
  next
    case (Inl e)
    show ?thesis
    proof (cases e)
      case (CalledProcessError rc cmd out err)
      define m1 where "m1 = ''Command '' @ [QUOTE] @ command self @ [QUOTE] @
                '' failed with error: '' @ exn_str w (CalledProcessError rc cmd out err)"
      define s1 where "s1 = log_as ERROR m1 (fst s0, w1)"
      have t1: "type (fst s1) = ERROR" by (simp add: s1_def log_as_fst)
      have t2: "type (fst (log_as ERROR c s1)) = ERROR" for c by (simp add: log_as_fst)
      have a2: "log_as ERROR c s1 = (fst s1, log (fst s1) c (snd s1))" for c
        by (rule log_as_same [OF t1])
      have a3: "log_as ERROR c' (fst s1, x) = (fst s1, log (fst s1) c' x)" for c' x
        using log_as_same [of "(fst s1, x)" ERROR c'] t1 by simp
      have lhs: "snd (run self chk w) =
          (let w2 = (if out \<noteq> [] then log (fst s1) (''--- STDOUT ---'' @ [NL] @ strip out) (snd s1)
                     else snd s1);
               w3 = (if err \<noteq> [] then log (fst s1) (''--- STDERR ---'' @ [NL] @ strip err) w2
                     else w2)
           in (self\<lparr>logger := fst s1\<rparr>, w3))"
        using Inl CalledProcessError
        by (simp add: r sub Let_def exn_str_signal [OF sg] s1_def m1_def del: exn_str.simps)
      have calls: "run_calls self w (fst (run self chk w)) =
          [(ERROR, m1)] @
          (if out \<noteq> [] then [(ERROR, ''--- STDOUT ---'' @ [NL] @ strip out)] else []) @
          (if err \<noteq> [] then [(ERROR, ''--- STDERR ---'' @ [NL] @ strip err)] else [])"
        using Inl CalledProcessError
        by (simp add: run_outcome run_calls_def m1_def del: exn_str.simps)
      show ?thesis
        unfolding lhs calls
        by (simp add: s1_def [symmetric] a2 a3 Let_def)
    next
      case (FileNotFoundError m)
      with Inl show ?thesis
        by (simp add: run_outcome) (simp add: r sub run_calls_def Let_def)
    next
      case (OtherException m)
      with Inl show ?thesis
        by (simp add: run_outcome) (simp add: r sub run_calls_def Let_def exn_str_signal [OF sg])
    qed
  qed
  then show ?thesis
    by (simp add: s0_def w1_def Let_def)
qed

lemma run_console_reads:
  "console (snd (snd (run self chk w))) =
     console w @ log_lines (logger self) (io_fault w) (clock w) (reads w)
                  ((INFO, announcement self) # run_calls self w (fst (run self chk w))) \<and>
   reads (snd (snd (run self chk w))) =
     reads w + 2 * length (log_lines (logger self) (io_fault w) (clock w) (reads w)
                  ((INFO, announcement self) # run_calls self w (fst (run self chk w))))"
proof -
  define s0 where "s0 = log_as INFO (announcement self) (logger self, w)"
  define w1 where "w1 = (snd s0)\<lparr>spawned := spawned (snd s0) @ [full_command self]\<rparr>"
  define calls where "calls = run_calls self w (fst (run self chk w))"
  have f0: "fst s0 = (logger self)\<lparr>type := INFO\<rparr>"
    by (simp add: s0_def log_as_fst)
  have w: "snd (snd (run self chk w)) = snd (log_seq calls (fst s0, w1))"
    by (simp add: run_as_calls [of self chk w] Let_def s0_def w1_def calls_def)
  from log_as_console_reads [of INFO "announcement self" "logger self" w]
  have a: "console w1 =
             console w @ lines_of (logger self) (io_fault w) (clock w) (reads w) INFO
                           (announcement self)"
    and b: "reads w1 =
             reads w + 2 * length (lines_of (logger self) (io_fault w) (clock w) (reads w) INFO
                           (announcement self))"
    and c: "clock w1 = clock w" and d: "io_fault w1 = io_fault w"
    by (simp_all add: w1_def s0_def)
  from log_seq_console_reads [of calls "fst s0" w1] show ?thesis
    unfolding w calls_def [symmetric]
    by (simp add: a b c d f0)
qed

lemma log_lines_snoc:
  "log_lines lg iof clk r (ms @ [(s, c)]) =
     log_lines lg iof clk r ms @
     lines_of lg iof clk (r + 2 * length (log_lines lg iof clk r ms)) s c"
  by (induction ms arbitrary: r) (auto simp: algebra_simps)

lemma log_lines_last:
  assumes "ms \<noteq> []"
    and "LogType_value (log_level lg) \<le> LogType_value (fst (last ms))"
    and "write_failure lg iof = None"
  shows "log_lines lg iof clk r ms \<noteq> [] \<and>
         last (log_lines lg iof clk r ms) =
           rendered (fst (last ms)) (clk (r + 2 * length (log_lines lg iof clk r ms) - 2))
             (snd (last ms))"
proof -
  obtain s c where l: "last ms = (s, c)" by (cases "last ms")
  with assms(1) have ms: "ms = butlast ms @ [(s, c)]"
    by (metis append_butlast_last_id)
  have lo: "lines_of lg iof clk r' s c = [rendered s (clk r') c]" for r'
    using assms(2,3) l by (simp add: lines_of_def)
  have "log_lines lg iof clk r ms =
          log_lines lg iof clk r (butlast ms) @
          [rendered s (clk (r + 2 * length (log_lines lg iof clk r (butlast ms)))) c]"
    using log_lines_snoc [of lg iof clk r "butlast ms" s c] ms lo by simp
  then show ?thesis
    by (simp add: l)
qed

lemma run_calls_last:
  "run_calls self w (fst (run self chk w)) \<noteq> [] \<and>
   fst (last (run_calls self w (fst (run self chk w)))) =
     (case fst (run self chk w) of
        Inl e \<Rightarrow> ERROR
      | Inr r \<Rightarrow> if stderr r \<noteq> [] then ERROR else if stdout r \<noteq> [] then INFO
                 else if returncode r = 0 then SUCCESS else WARNING)"
  by (auto simp add: run_calls_def split: sum.splits exn.splits)

lemma run_True_raises:
  assumes "shell w (full_command self) = Exited rc out err" and "rc \<noteq> 0"
  shows "fst (run self True w) = Inl (CalledProcessError rc (full_command self) out err)"
  using assms by (simp add: run_outcome subprocess_run_def Let_def)



lemma quiet_echo_run:
  "fst (run quiet_echo False example_world) =
     Inr \<lparr>args = ''echo hi'', returncode = 0, stdout = ''hi'' @ [NL], stderr = []\<rparr>"
proof -
  have "shell example_world (full_command quiet_echo) = Exited 0 (''hi'' @ [NL]) []"
    by (simp add: example_world_def example_shell_def full_command_def quiet_echo_def)
  then show ?thesis
    by (simp add: run_outcome subprocess_run_def Let_def)
       (simp add: full_command_def quiet_echo_def)
qed

section \<open>Claims about failing commands\<close>

text \<open>
  C2. With \<open>check_returncode\<close> set and a command that exits with code 1, \<open>run\<close> raises
  \<open>CalledProcessError\<close>, and the console holds two lines: the \<open>INFO\<close> line that
  announces the command and the \<open>ERROR\<close> line of the handler. No \<open>WARNING\<close> line
  "exited with code 1" was printed: \<open>subprocess.run\<close> raises before \<open>run\<close> looks at the
  exit code.
\<close>

theorem check_failure_logs_no_warning_counterexample:
  "fst (run (Cmd_init ''false'') True example_world) =
     Inl (CalledProcessError 1 ''false '' [] []) \<and>
   console (snd (snd (run (Cmd_init ''false'') True example_world))) =
     [rendered INFO t0 (''Running command: '' @ [QUOTE] @ ''false '' @ [QUOTE] @ ''...''),
      rendered ERROR t0
        (''Command '' @ [QUOTE] @ ''false'' @ [QUOTE] @ '' failed with error: Command '' @
         [QUOTE] @ ''false '' @ [QUOTE] @ '' returned non-zero exit status 1.'')]"
proof -
  have sh: "shell example_world (full_command (Cmd_init ''false'')) = Exited 1 [] []"
    by (simp add: example_world_def example_shell_def full_command_def Cmd_init_def)
  have one: "(1::int) \<noteq> 0" by simp
  from run_raises [OF plain_Cmd_init sh TrueI one] show ?thesis
    by (simp add: example_world_def full_command_def Cmd_init_def str_int_def str_nat.simps
        digit_char_def)
qed

text \<open>
  C2, as amended. With \<open>check_returncode\<close> set and an exit code other than 0, \<open>run\<close>
  raises \<open>CalledProcessError\<close> to its caller. Before that it has passed to its logger
  the announcement at \<open>INFO\<close> and then, all at \<open>ERROR\<close>: the message "failed with
  error", the captured standard output if it is not empty, and the captured standard
  error if it is not empty. No message at \<open>WARNING\<close> is among them. The console gains
  the lines of those messages that are at or above the level of the logger, whatever
  logger the command has; with the logger \<open>Cmd.__init__\<close> made, all of them.
\<close>

theorem check_failure_raises_after_error_lines:
  assumes "shell w (full_command self) = Exited rc out err"
    and "rc \<noteq> 0"
  shows "fst (run self True w) = Inl (CalledProcessError rc (full_command self) out err) \<and>
         run_calls self w (fst (run self True w)) =
           [(ERROR, ''Command '' @ [QUOTE] @ command self @ [QUOTE] @ '' failed with error: '' @
                    exn_str w (CalledProcessError rc (full_command self) out err))] @
           (if out \<noteq> [] then [(ERROR, ''--- STDOUT ---'' @ [NL] @ strip out)] else []) @
           (if err \<noteq> [] then [(ERROR, ''--- STDERR ---'' @ [NL] @ strip err)] else []) \<and>
         snd (run self True w) =
           (let s0 = log_as INFO (announcement self) (logger self, w);
                sF = log_seq (run_calls self w (fst (run self True w)))
                       (fst s0, (snd s0)\<lparr>spawned := spawned (snd s0) @ [full_command self]\<rparr>)
            in (self\<lparr>logger := fst sF\<rparr>, snd sF)) \<and>
         console (snd (snd (run self True w))) =
           console w @ log_lines (logger self) (io_fault w) (clock w) (reads w)
                        ((INFO, announcement self) # run_calls self w (fst (run self True w))) \<and>
         (plain_logger (logger self) \<longrightarrow>
            console (snd (snd (run self True w))) =
              console w @
              [rendered INFO (clock w (reads w))
                 (''Running command: '' @ [QUOTE] @ full_command self @ [QUOTE] @ ''...''),
               rendered ERROR (clock w (reads w + 2))
                 (''Command '' @ [QUOTE] @ command self @ [QUOTE] @ '' failed with error: '' @
                  exn_str w (CalledProcessError rc (full_command self) out err))] @
              (if out \<noteq> [] then
                 [rendered ERROR (clock w (reads w + 4)) (''--- STDOUT ---'' @ [NL] @ strip out)]
               else []) @
              (if err \<noteq> [] then
                 [rendered ERROR (clock w (reads w + (if out \<noteq> [] then 6 else 4)))
                    (''--- STDERR ---'' @ [NL] @ strip err)]
               else []))"
proof -
  have a: "fst (run self True w) = Inl (CalledProcessError rc (full_command self) out err)"
    by (rule run_True_raises [OF assms])
  have b: "run_calls self w (fst (run self True w)) =
           [(ERROR, ''Command '' @ [QUOTE] @ command self @ [QUOTE] @ '' failed with error: '' @
                    exn_str w (CalledProcessError rc (full_command self) out err))] @
           (if out \<noteq> [] then [(ERROR, ''--- STDOUT ---'' @ [NL] @ strip out)] else []) @
           (if err \<noteq> [] then [(ERROR, ''--- STDERR ---'' @ [NL] @ strip err)] else [])"
    unfolding a by (simp add: run_calls_def del: exn_str.simps)
  note c = run_as_calls [of self True w]
  have d: "console (snd (snd (run self True w))) =
           console w @ log_lines (logger self) (io_fault w) (clock w) (reads w)
                        ((INFO, announcement self) # run_calls self w (fst (run self True w)))"
    using run_console_reads [of self True w] by simp
  have e: "plain_logger (logger self) \<longrightarrow>
            console (snd (snd (run self True w))) =
              console w @
              [rendered INFO (clock w (reads w))
                 (''Running command: '' @ [QUOTE] @ full_command self @ [QUOTE] @ ''...''),
               rendered ERROR (clock w (reads w + 2))
                 (''Command '' @ [QUOTE] @ command self @ [QUOTE] @ '' failed with error: '' @
                  exn_str w (CalledProcessError rc (full_command self) out err))] @
              (if out \<noteq> [] then
                 [rendered ERROR (clock w (reads w + 4)) (''--- STDOUT ---'' @ [NL] @ strip out)]
               else []) @
              (if err \<noteq> [] then
                 [rendered ERROR (clock w (reads w + (if out \<noteq> [] then 6 else 4)))
                    (''--- STDERR ---'' @ [NL] @ strip err)]
               else [])"
    using run_raises(2) [OF _ assms(1) TrueI assms(2)] by blast
  from a b c d e show ?thesis by blast
qed

theorem check_failure_raises_after_error_lines_witness:
  "fst (run (add_flags (Cmd_init ''cc'') [''bad.c'']) True example_world) =
     Inl (CalledProcessError 1 ''cc bad.c'' (''compiling bad.c'' @ [NL])
            (''bad.c:1: error: expected declaration'' @ [NL])) \<and>
   console (snd (snd (run (add_flags (Cmd_init ''cc'') [''bad.c'']) True example_world))) =
     [rendered INFO t0 (''Running command: '' @ [QUOTE] @ ''cc bad.c'' @ [QUOTE] @ ''...''),
      rendered ERROR t0
        (''Command '' @ [QUOTE] @ ''cc'' @ [QUOTE] @ '' failed with error: Command '' @
         [QUOTE] @ ''cc bad.c'' @ [QUOTE] @ '' returned non-zero exit status 1.''),
      rendered ERROR t0 (''--- STDOUT ---'' @ [NL] @ ''compiling bad.c''),
      rendered ERROR t0 (''--- STDERR ---'' @ [NL] @ ''bad.c:1: error: expected declaration'')] \<and>
   fst (run strict_cc True example_world) =
     Inl (CalledProcessError 1 ''cc bad.c'' (''compiling bad.c'' @ [NL])
            (''bad.c:1: error: expected declaration'' @ [NL])) \<and>
   console (snd (snd (run strict_cc True example_world))) = []"
proof -
  let ?c = "add_flags (Cmd_init ''cc'') [''bad.c'']"
  have pl: "plain_logger (logger ?c)"
    by (simp add: plain_logger_def Cmd_init_def Log_init_def add_flags_def)
  have sh: "shell example_world (full_command ?c) =
              Exited 1 (''compiling bad.c'' @ [NL]) (''bad.c:1: error: expected declaration'' @ [NL])"
    by (simp add: example_world_def example_shell_def full_command_def Cmd_init_def add_flags_def)
  have sh2: "shell example_world (full_command strict_cc) =
              Exited 1 (''compiling bad.c'' @ [NL]) (''bad.c:1: error: expected declaration'' @ [NL])"
    by (simp add: example_world_def example_shell_def full_command_def strict_cc_def)
  have one: "(1::int) \<noteq> 0" by simp
  have st: "strip (''compiling bad.c'' @ [NL]) = ''compiling bad.c''"
    "strip (''bad.c:1: error: expected declaration'' @ [NL]) =
       ''bad.c:1: error: expected declaration''"
    by (simp_all add: strip_def isspace_def NL_def)
  have x: "fst (run ?c True example_world) =
     Inl (CalledProcessError 1 ''cc bad.c'' (''compiling bad.c'' @ [NL])
            (''bad.c:1: error: expected declaration'' @ [NL])) \<and>
   console (snd (snd (run ?c True example_world))) =
     [rendered INFO t0 (''Running command: '' @ [QUOTE] @ ''cc bad.c'' @ [QUOTE] @ ''...''),
      rendered ERROR t0
        (''Command '' @ [QUOTE] @ ''cc'' @ [QUOTE] @ '' failed with error: Command '' @
         [QUOTE] @ ''cc bad.c'' @ [QUOTE] @ '' returned non-zero exit status 1.''),
      rendered ERROR t0 (''--- STDOUT ---'' @ [NL] @ ''compiling bad.c''),
      rendered ERROR t0 (''--- STDERR ---'' @ [NL] @ ''bad.c:1: error: expected declaration'')]"
    using check_failure_raises_after_error_lines [OF sh one, THEN conjunct1]
      check_failure_raises_after_error_lines
        [OF sh one, THEN conjunct2, THEN conjunct2, THEN conjunct2, THEN conjunct2] pl st
    by (simp add: example_world_def full_command_def Cmd_init_def add_flags_def str_int_def
        str_nat.simps digit_char_def)
  have y: "fst (run strict_cc True example_world) =
     Inl (CalledProcessError 1 ''cc bad.c'' (''compiling bad.c'' @ [NL])
            (''bad.c:1: error: expected declaration'' @ [NL])) \<and>
   console (snd (snd (run strict_cc True example_world))) = []"
    using check_failure_raises_after_error_lines [OF sh2 one, THEN conjunct1]
      check_failure_raises_after_error_lines
        [OF sh2 one, THEN conjunct2, THEN conjunct2, THEN conjunct2, THEN conjunct1]
    by (simp add: full_command_def run_calls_def del: exn_str.simps)
       (simp add: strict_cc_def example_world_def lines_of_def Log_init_def)
  from x y show ?thesis by blast
qed

text \<open>
  C3. The command goes to the shell as one string (\<open>shell=True\<close>). For a program that
  does not exist the shell starts, reports "not found" on its standard error and exits
  with code 127. So \<open>run\<close> returns that result, having printed a \<open>WARNING\<close> line and
  the captured standard error; with \<open>check_returncode\<close> set it raises
  \<open>CalledProcessError\<close>. In neither case does it raise \<open>FileNotFoundError\<close> or print the
  "not found. Please ensure it is in your PATH." line of that handler.
\<close>

theorem missing_program_returns_exit_127:
  "fst (run (Cmd_init ''no_such_program'') False example_world) =
     Inr \<lparr>args = ''no_such_program '', returncode = 127, stdout = [],
          stderr = ''/bin/sh: 1: no_such_program: not found'' @ [NL]\<rparr> \<and>
   console (snd (snd (run (Cmd_init ''no_such_program'') False example_world))) =
     [rendered INFO t0
        (''Running command: '' @ [QUOTE] @ ''no_such_program '' @ [QUOTE] @ ''...''),
      rendered WARNING t0
        (''Command '' @ [QUOTE] @ ''no_such_program'' @ [QUOTE] @ '' exited with code 127.''),
      rendered ERROR t0
        (''--- STDERR ---'' @ [NL] @ ''/bin/sh: 1: no_such_program: not found'')] \<and>
   fst (run (Cmd_init ''no_such_program'') True example_world) =
     Inl (CalledProcessError 127 ''no_such_program '' []
            (''/bin/sh: 1: no_such_program: not found'' @ [NL]))"
proof -
  have sh: "shell example_world (full_command (Cmd_init ''no_such_program'')) =
              Exited 127 [] (''/bin/sh: 1: no_such_program: not found'' @ [NL])"
    by (simp add: example_world_def example_shell_def full_command_def Cmd_init_def)
  have ok: "\<not> (False \<and> (127::int) \<noteq> 0)" by simp
  have bad: "(127::int) \<noteq> 0" by simp
  have st: "strip (''/bin/sh: 1: no_such_program: not found'' @ [NL]) =
              ''/bin/sh: 1: no_such_program: not found''"
    by (simp add: strip_def isspace_def NL_def)
  from run_returns(1,2) [OF plain_Cmd_init sh ok] run_raises(1) [OF plain_Cmd_init sh TrueI bad] st
  show ?thesis
    by (simp add: example_world_def full_command_def Cmd_init_def str_int_def str_nat.simps
        digit_char_def)
qed

section \<open>Claims about a call that returns\<close>



text \<open>
  C8. A command whose logger prints from \<open>WARNING\<close> up runs \<open>echo hi\<close>: the only line
  printed is the \<open>SUCCESS\<close> line, yet the type the call leaves in the logger is
  \<open>INFO\<close>, the severity of the message about the standard output, which the level
  kept from the console.
\<close>

theorem filtered_last_message_counterexample:
  "type (logger (fst (snd (run quiet_echo False example_world)))) = INFO \<and>
   console (snd (snd (run quiet_echo False example_world))) =
     [rendered SUCCESS t0
        (''Command '' @ [QUOTE] @ ''echo'' @ [QUOTE] @ '' completed successfully.'')]"
proof -
  have a: "type (logger (fst (snd (run quiet_echo False example_world)))) = INFO"
    by (simp add: run_logger_after [of quiet_echo False example_world] quiet_echo_run)
  have b: "console (snd (snd (run quiet_echo False example_world))) =
     [rendered SUCCESS t0
        (''Command '' @ [QUOTE] @ ''echo'' @ [QUOTE] @ '' completed successfully.'')]"
    using run_console_reads [of quiet_echo False example_world, THEN conjunct1]
    by (simp add: quiet_echo_run run_calls_def)
       (simp add: quiet_echo_def example_world_def lines_of_def Log_init_def write_failure_def
         truthy_path_def)
  from a b show ?thesis by blast
qed

text \<open>
  C8, as amended. \<open>run\<close> changes the \<open>type\<close> of the command's logger and nothing else
  of the command, and does not put the old value back: whatever the type was before,
  after the call it is \<open>ERROR\<close> when the call raised or the standard error was not
  empty, else \<open>INFO\<close> when the standard output was not empty, else \<open>SUCCESS\<close> for exit
  code 0 and \<open>WARNING\<close> otherwise. That is the severity of the last message the call
  passed to the logger. It is the severity of the last line printed whenever it is at
  or above the level of the logger and no report of a failed file write follows it,
  as is always so with the logger \<open>Cmd.__init__\<close> made.
\<close>

theorem run_leaves_logger_type_of_last_message:
  "fst (snd (run self chk w)) =
     self\<lparr>logger := (logger self)\<lparr>type :=
       (case fst (run self chk w) of
          Inl e \<Rightarrow> ERROR
        | Inr r \<Rightarrow> if stderr r \<noteq> [] then ERROR else if stdout r \<noteq> [] then INFO
                   else if returncode r = 0 then SUCCESS else WARNING)\<rparr>\<rparr> \<and>
   run_calls self w (fst (run self chk w)) \<noteq> [] \<and>
   type (logger (fst (snd (run self chk w)))) =
     fst (last (run_calls self w (fst (run self chk w)))) \<and>
   snd (run self chk w) =
     (let s0 = log_as INFO (announcement self) (logger self, w);
          sF = log_seq (run_calls self w (fst (run self chk w)))
                 (fst s0, (snd s0)\<lparr>spawned := spawned (snd s0) @ [full_command self]\<rparr>)
      in (self\<lparr>logger := fst sF\<rparr>, snd sF)) \<and>
   (LogType_value (log_level (logger self)) \<le>
      LogType_value (type (logger (fst (snd (run self chk w))))) \<and>
    write_failure (logger self) (io_fault w) = None \<longrightarrow>
      console (snd (snd (run self chk w))) \<noteq> console w \<and>
      last (console (snd (snd (run self chk w)))) =
        rendered (type (logger (fst (snd (run self chk w)))))
          (clock w (reads (snd (snd (run self chk w))) - 2))
          (snd (last (run_calls self w (fst (run self chk w))))))"
proof -
  let ?calls = "run_calls self w (fst (run self chk w))"
  let ?T = "type (logger (fst (snd (run self chk w))))"
  note a = run_logger_after [of self chk w]
  from run_calls_last [of self w chk]
  have b: "?calls \<noteq> []"
    and l: "fst (last ?calls) =
       (case fst (run self chk w) of
          Inl e \<Rightarrow> ERROR
        | Inr r \<Rightarrow> if stderr r \<noteq> [] then ERROR else if stdout r \<noteq> [] then INFO
                   else if returncode r = 0 then SUCCESS else WARNING)" by simp_all
  have c: "?T = fst (last ?calls)"
    by (simp only: l) (simp add: a)
  note d = run_as_calls [of self chk w]
  have e: "LogType_value (log_level (logger self)) \<le> LogType_value ?T \<and>
    write_failure (logger self) (io_fault w) = None \<longrightarrow>
      console (snd (snd (run self chk w))) \<noteq> console w \<and>
      last (console (snd (snd (run self chk w)))) =
        rendered ?T (clock w (reads (snd (snd (run self chk w))) - 2)) (snd (last ?calls))"
  proof
    assume h: "LogType_value (log_level (logger self)) \<le> LogType_value ?T \<and>
      write_failure (logger self) (io_fault w) = None"
    define ms where "ms = (INFO, announcement self) # ?calls"
    define LL where "LL = log_lines (logger self) (io_fault w) (clock w) (reads w) ms"
    have ne: "ms \<noteq> []" by (simp add: ms_def)
    have la: "last ms = last ?calls" using b by (simp add: ms_def)
    from h c la have lv: "LogType_value (log_level (logger self)) \<le> LogType_value (fst (last ms))"
      by simp
    from h have wf: "write_failure (logger self) (io_fault w) = None" by simp
    from log_lines_last [OF ne lv wf, of "clock w" "reads w"]
    have L: "LL \<noteq> []"
      "last LL = rendered (fst (last ms)) (clock w (reads w + 2 * length LL - 2)) (snd (last ms))"
      by (simp_all add: LL_def)
    from run_console_reads [of self chk w]
    have R: "console (snd (snd (run self chk w))) = console w @ LL"
      "reads (snd (snd (run self chk w))) = reads w + 2 * length LL"
      by (simp_all only: LL_def ms_def)
    from L R show "console (snd (snd (run self chk w))) \<noteq> console w \<and>
      last (console (snd (snd (run self chk w)))) =
        rendered ?T (clock w (reads (snd (snd (run self chk w))) - 2)) (snd (last ?calls))"
      by (simp add: la c)
  qed
  from a b c d e show ?thesis by blast
qed

theorem run_leaves_logger_type_of_last_message_witness:
  "type (logger (Cmd_init ''ls'')) = INFO \<and>
   type (logger (fst (snd (run (Cmd_init ''ls'') False example_world)))) = SUCCESS \<and>
   last (console (snd (snd (run (Cmd_init ''ls'') False example_world)))) =
     rendered SUCCESS t0
       (''Command '' @ [QUOTE] @ ''ls'' @ [QUOTE] @ '' completed successfully.'') \<and>
   type (logger (fst (snd (run quiet_echo False example_world)))) = INFO \<and>
   fst (last (run_calls quiet_echo example_world (fst (run quiet_echo False example_world)))) =
     INFO"
proof -
  let ?c = "Cmd_init ''ls''"
  have sh: "shell example_world (full_command ?c) = Exited 0 [] []"
    by (simp add: example_world_def example_shell_def full_command_def Cmd_init_def)
  have r: "fst (run ?c False example_world) =
             Inr \<lparr>args = ''ls '', returncode = 0, stdout = [], stderr = []\<rparr>"
    using sh by (simp add: run_outcome subprocess_run_def Let_def)
       (simp add: full_command_def Cmd_init_def)
  note T = run_leaves_logger_type_of_last_message [of ?c False example_world]
  note Q = run_leaves_logger_type_of_last_message [of quiet_echo False example_world]
  have t: "type (logger (fst (snd (run ?c False example_world)))) = SUCCESS"
    using T [THEN conjunct1] by (simp add: r)
  have wf: "write_failure (logger ?c) (io_fault example_world) = None"
    by (simp add: write_failure_def truthy_path_def Cmd_init_def Log_init_def)
  have lv: "LogType_value (log_level (logger ?c)) \<le>
              LogType_value (type (logger (fst (snd (run ?c False example_world)))))"
    by (simp add: t) (simp add: Cmd_init_def Log_init_def)
  have cl: "clock example_world = (\<lambda>_. t0)" by (simp add: example_world_def)
  have x: "last (console (snd (snd (run ?c False example_world)))) =
     rendered SUCCESS t0
       (''Command '' @ [QUOTE] @ ''ls'' @ [QUOTE] @ '' completed successfully.'')"
    using T [THEN conjunct2, THEN conjunct2, THEN conjunct2, THEN conjunct2, THEN mp,
        OF conjI [OF lv wf], THEN conjunct2]
    by (simp add: t cl r run_calls_def) (simp add: Cmd_init_def)
  have q1: "type (logger (fst (snd (run quiet_echo False example_world)))) = INFO"
    using Q [THEN conjunct1] by (simp add: quiet_echo_run)
  have q2: "fst (last (run_calls quiet_echo example_world
                         (fst (run quiet_echo False example_world)))) = INFO"
    using Q [THEN conjunct2, THEN conjunct2, THEN conjunct1] q1 by simp
  have i: "type (logger ?c) = INFO" by (simp add: Cmd_init_def Log_init_def)
  from i t x q1 q2 show ?thesis by blast
qed

section \<open>Claims about the log file\<close>

lemma is_digit_digit_char: "is_digit (digit_char n)"
  unfolding is_digit_def digit_char_def
  by (rule nth_mem) simp

lemma is_digit_zero: "is_digit CHR ''0''"
  by (simp add: is_digit_def)

lemma str_nat_digits: "set (str_nat n) \<subseteq> Collect is_digit"
proof (induction n rule: str_nat.induct)
  case (1 n)
  show ?case
  proof (cases "n < 10")
    case True
    then show ?thesis by (simp add: str_nat.simps [of n] is_digit_digit_char)
  next
    case False
    with 1 show ?thesis by (simp add: str_nat.simps [of n] is_digit_digit_char)
  qed
qed

lemma zero_pad_digits: "set (zero_pad k n) \<subseteq> Collect is_digit"
  using str_nat_digits [of n] by (auto simp: zero_pad_def is_digit_zero)

lemma str_nat_1: "n < 10 \<Longrightarrow> str_nat n = [digit_char n]"
  by (simp add: str_nat.simps [of n])

lemma str_nat_2: "10 \<le> n \<Longrightarrow> n < 100 \<Longrightarrow> str_nat n = [digit_char (n div 10), digit_char n]"
  by (simp add: str_nat.simps [of n] str_nat_1)

lemma str_nat_3:
  "100 \<le> n \<Longrightarrow> n < 1000 \<Longrightarrow>
   str_nat n = [digit_char (n div 10 div 10), digit_char (n div 10), digit_char n]"
  by (simp add: str_nat.simps [of n] str_nat_2)

lemma str_nat_4:
  "1000 \<le> n \<Longrightarrow> n < 10000 \<Longrightarrow>
   str_nat n = [digit_char (n div 10 div 10 div 10), digit_char (n div 10 div 10),
                digit_char (n div 10), digit_char n]"
  by (simp add: str_nat.simps [of n] str_nat_3)

lemma length_str_nat_le2: "n < 100 \<Longrightarrow> length (str_nat n) \<le> 2"
  by (cases "n < 10") (simp_all add: str_nat_1 str_nat_2)

lemma length_str_nat_le4: "n < 10000 \<Longrightarrow> length (str_nat n) \<le> 4"
  by (cases "n < 10"; cases "n < 100"; cases "n < 1000")
     (simp_all add: str_nat_1 str_nat_2 str_nat_3 str_nat_4)

lemma length_zero_pad: "length (str_nat n) \<le> k \<Longrightarrow> length (zero_pad k n) = k"
  by (simp add: zero_pad_def)

lemma digits2:
  assumes "length s = 2" and "set s \<subseteq> Collect is_digit"
  shows "\<exists>a b. s = [a, b] \<and> is_digit a \<and> is_digit b"
proof -
  from assms(1) obtain a b where "s = [a, b]"
    by (cases s; cases "tl s") auto
  with assms(2) show ?thesis by auto
qed

lemma digits4:
  assumes "length s = 4" and "set s \<subseteq> Collect is_digit"
  shows "\<exists>a b c d. s = [a, b, c, d] \<and> is_digit a \<and> is_digit b \<and> is_digit c \<and> is_digit d"
proof -
  from assms(1) obtain a b c d where "s = [a, b, c, d]"
    by (cases s; cases "tl s"; cases "tl (tl s)"; cases "tl (tl (tl s))") auto
  with assms(2) show ?thesis by auto
qed

lemma zero_pad_2: "n < 100 \<Longrightarrow> \<exists>a b. zero_pad 2 n = [a, b] \<and> is_digit a \<and> is_digit b"
  by (rule digits2) (simp_all add: length_zero_pad length_str_nat_le2 zero_pad_digits)

lemma zero_pad_4:
  "n < 10000 \<Longrightarrow>
   \<exists>a b c d. zero_pad 4 n = [a, b, c, d] \<and> is_digit a \<and> is_digit b \<and> is_digit c \<and> is_digit d"
  by (rule digits4) (simp_all add: length_zero_pad length_str_nat_le4 zero_pad_digits)

lemma strftime_shape: "valid_datetime t \<Longrightarrow> is_timestamp (strftime t)"
proof -
  assume v: "valid_datetime t"
  then have "year t < 10000" "month t < 100" "day t < 100" "hour t < 100" "minute t < 100"
    "second t < 100" by (simp_all add: valid_datetime_def)
  from zero_pad_4 [OF this(1)] zero_pad_2 [OF this(2)] zero_pad_2 [OF this(3)]
    zero_pad_2 [OF this(4)] zero_pad_2 [OF this(5)] zero_pad_2 [OF this(6)]
  obtain y1 y2 y3 y4 m1 m2 d1 d2 h1 h2 i1 i2 s1 s2 where
    "zero_pad 4 (year t) = [y1, y2, y3, y4]" "is_digit y1" "is_digit y2" "is_digit y3" "is_digit y4"
    "zero_pad 2 (month t) = [m1, m2]" "is_digit m1" "is_digit m2"
    "zero_pad 2 (day t) = [d1, d2]" "is_digit d1" "is_digit d2"
    "zero_pad 2 (hour t) = [h1, h2]" "is_digit h1" "is_digit h2"
    "zero_pad 2 (minute t) = [i1, i2]" "is_digit i1" "is_digit i2"
    "zero_pad 2 (second t) = [s1, s2]" "is_digit s1" "is_digit s2"
    by blast
  then show ?thesis
    by (simp add: is_timestamp_def timestamp_shape_def strftime_def eval_nat_numeral)
qed

lemma strftime_chars:
  "set (strftime t) \<subseteq> Collect is_digit \<union> {CHR ''-'', CHR '' '', CHR '':''}"
  using zero_pad_digits [of 4 "year t"] zero_pad_digits [of 2 "month t"]
    zero_pad_digits [of 2 "day t"] zero_pad_digits [of 2 "hour t"]
    zero_pad_digits [of 2 "minute t"] zero_pad_digits [of 2 "second t"]
  by (auto simp: strftime_def)

lemma strftime_no_NL_ESC: "NL \<notin> set (strftime t) \<and> ESC \<notin> set (strftime t)"
  using strftime_chars [of t] by (auto simp: is_digit_def NL_def ESC_def)

lemma LogType_name_no_NL_ESC: "NL \<notin> set (LogType_name s) \<and> ESC \<notin> set (LogType_name s)"
  by (cases s) (simp_all add: NL_def ESC_def)

lemma count_plain_line:
  "count_list (plain_line s t m) NL = Suc (count_list m NL) \<and>
   count_list (plain_line s t m) ESC = count_list m ESC"
  using strftime_no_NL_ESC [of t] LogType_name_no_NL_ESC [of s]
  by (simp add: plain_line_def NL_def ESC_def)

lemma log_twice_file:
  assumes nb1: "\<not> below_level lg1" and nb2: "\<not> below_level lg2"
    and p1: "log_file_path lg1 = Some p" and p2: "log_file_path lg2 = Some p"
    and ne: "p \<noteq> []" and io: "io_fault w p = None"
  shows "files (log lg2 m2 (log lg1 m1 w)) p =
           Some ((case files w p of None \<Rightarrow> [] | Some old \<Rightarrow> old) @
                 plain_line (type lg1) (clock w (reads w + 1)) m1 @
                 plain_line (type lg2) (clock w (reads w + 3)) m2)"
proof -
  let ?w1 = "log lg1 m1 w"
  have w1: "?w1 = w\<lparr>console := console w @ [rendered (type lg1) (clock w (reads w)) m1],
                     reads := reads w + 2,
                     opens := opens w @ [p],
                     files := (files w)(p \<mapsto> (case files w p of None \<Rightarrow> [] | Some old \<Rightarrow> old) @
                                          plain_line (type lg1) (clock w (Suc (reads w))) m1)\<rparr>"
    by (rule log_file_ok [OF nb1 p1 ne io])
  have io1: "io_fault ?w1 p = None"
    using io by (simp add: log_frame)
  have f1: "files ?w1 p = Some ((case files w p of None \<Rightarrow> [] | Some old \<Rightarrow> old) @
                                plain_line (type lg1) (clock w (Suc (reads w))) m1)"
    by (simp add: w1)
  have c1: "clock ?w1 = clock w" by (simp add: log_frame)
  have r1: "reads ?w1 = reads w + 2" by (simp add: w1)
  show ?thesis
    by (simp add: log_file_ok [OF nb2 p2 ne io1] f1 c1 r1 eval_nat_numeral)
qed

text \<open>
  C7. Two messages logged to the same file, the first of which holds a line break:
  the file gains three lines, not two.
\<close>

theorem multiline_message_adds_three_lines_counterexample:
  "files (log (Log_init INFO DEBUG (Some ''build.log'')) ''second''
            (log (Log_init INFO DEBUG (Some ''build.log'')) (''first'' @ [NL] @ ''more'')
               example_world)) ''build.log'' =
     Some (''[2024-01-02 03:04:05 INFO]: first'' @ [NL] @ ''more'' @ [NL] @
           ''[2024-01-02 03:04:05 INFO]: second'' @ [NL]) \<and>
   count_list (''[2024-01-02 03:04:05 INFO]: first'' @ [NL] @ ''more'' @ [NL] @
               ''[2024-01-02 03:04:05 INFO]: second'' @ [NL]) NL = 3"
proof -
  have nb: "\<not> below_level (Log_init INFO DEBUG (Some ''build.log''))"
    by (simp add: below_level_def Log_init_def)
  have p: "log_file_path (Log_init INFO DEBUG (Some ''build.log'')) = Some ''build.log''"
    by (simp add: Log_init_def)
  have ne: "''build.log'' \<noteq> []" by simp
  have io: "io_fault example_world ''build.log'' = None"
    by (simp add: example_world_def)
  from log_twice_file [OF nb nb p p ne io, of "''second''" "''first'' @ [NL] @ ''more''"]
  show ?thesis
    by (simp add: example_world_def plain_line_def strftime_t0 Log_init_def NL_def)
qed

text \<open>
  C7, as amended. Two messages logged one after the other to the same truthy path,
  each at or above the level of its logger and with no write failure: the file then
  holds what it held before, followed by the line of the first message and then the
  line of the second. A line is \<open>[timestamp SEVERITY]: message\<close> and one line break,
  with the time stamp of shape \<open>YYYY-MM-DD HH:MM:SS\<close>. The text added holds two line
  breaks besides those inside the messages, and no escape character besides those
  inside the messages: the colours of the console never reach the file.
\<close>

theorem two_messages_append_two_plain_lines:
  assumes "LogType_value (log_level lg1) \<le> LogType_value (type lg1)"
    and "LogType_value (log_level lg2) \<le> LogType_value (type lg2)"
    and "log_file_path lg1 = Some p" and "log_file_path lg2 = Some p"
    and "p \<noteq> []" and "io_fault w p = None"
  shows "files (log lg2 m2 (log lg1 m1 w)) p =
           Some ((case files w p of None \<Rightarrow> [] | Some old \<Rightarrow> old) @
                 plain_line (type lg1) (clock w (reads w + 1)) m1 @
                 plain_line (type lg2) (clock w (reads w + 3)) m2) \<and>
         plain_line (type lg1) t1 m1 =
           ''['' @ strftime t1 @ '' '' @ LogType_name (type lg1) @ '']: '' @ m1 @ [NL] \<and>
         (valid_datetime t1 \<longrightarrow> is_timestamp (strftime t1)) \<and>
         count_list (plain_line (type lg1) t1 m1 @ plain_line (type lg2) t2 m2) NL =
           2 + count_list m1 NL + count_list m2 NL \<and>
         count_list (plain_line (type lg1) t1 m1 @ plain_line (type lg2) t2 m2) ESC =
           count_list m1 ESC + count_list m2 ESC"
proof -
  from assms(1,2) have nb: "\<not> below_level lg1" "\<not> below_level lg2"
    by (simp_all add: below_level_def)
  have a: "files (log lg2 m2 (log lg1 m1 w)) p =
           Some ((case files w p of None \<Rightarrow> [] | Some old \<Rightarrow> old) @
                 plain_line (type lg1) (clock w (reads w + 1)) m1 @
                 plain_line (type lg2) (clock w (reads w + 3)) m2)"
    by (rule log_twice_file [OF nb assms(3,4,5,6)])
  have b: "plain_line (type lg1) t1 m1 =
           ''['' @ strftime t1 @ '' '' @ LogType_name (type lg1) @ '']: '' @ m1 @ [NL]"
    by (simp add: plain_line_def)
  have c: "valid_datetime t1 \<longrightarrow> is_timestamp (strftime t1)"
    by (simp add: strftime_shape)
  have d: "count_list (plain_line (type lg1) t1 m1 @ plain_line (type lg2) t2 m2) NL =
           2 + count_list m1 NL + count_list m2 NL"
    by (simp add: count_plain_line)
  have e: "count_list (plain_line (type lg1) t1 m1 @ plain_line (type lg2) t2 m2) ESC =
           count_list m1 ESC + count_list m2 ESC"
    by (simp add: count_plain_line)
  from a b c d e show ?thesis by blast
qed

theorem two_messages_append_two_plain_lines_witness:
  "files (log (Log_init SUCCESS DEBUG (Some ''build.log'')) ''done''
            (log (Log_init INFO DEBUG (Some ''build.log'')) ''compiling'' example_world))
     ''build.log'' =
     Some (''[2024-01-02 03:04:05 INFO]: compiling'' @ [NL] @
           ''[2024-01-02 03:04:05 SUCCESS]: done'' @ [NL]) \<and>
   valid_datetime t0 \<and> is_timestamp ''2024-01-02 03:04:05''"
proof -
  have v: "valid_datetime t0"
    by (simp add: valid_datetime_def t0_def)
  from two_messages_append_two_plain_lines
    [of "Log_init INFO DEBUG (Some ''build.log'')" "Log_init SUCCESS DEBUG (Some ''build.log'')"
        "''build.log''" example_world "''done''" "''compiling''" t0 t0] v
  show ?thesis
    by (simp add: example_world_def plain_line_def strftime_t0 Log_init_def)
qed

end
